theory Spec2Isabelle
  imports Complex_Main "HOL-Library.Multiset"
begin

section \<open>Conventions\<close>

text \<open>
  The signal engine of HazardPay (\<^verbatim>\<open>src/smart_signals.py\<close>, \<^verbatim>\<open>src/velocity_v2.py\<close>) is
  embedded function by function. Python \<^verbatim>\<open>int\<close> is \<^typ>\<open>int\<close>; Python \<^verbatim>\<open>float\<close> is
  modelled as an exact \<^typ>\<open>real\<close> (no rounding error); a \<^verbatim>\<open>datetime\<close> is a \<^typ>\<open>real\<close>
  number of seconds on a fixed time axis, and the successive \<^verbatim>\<open>datetime.now()\<close> calls of
  one evaluation are one instant \<open>now\<close>, passed as a parameter. State, readiness and
  signal-type labels stay the strings the source uses.
\<close>

type_synonym datetime = real

text \<open>\<^verbatim>\<open>d.get(key, default)\<close> on an optional document field.\<close>

definition get_or :: "'a option \<Rightarrow> 'a \<Rightarrow> 'a" where
  "get_or v dflt = (case v of None \<Rightarrow> dflt | Some x \<Rightarrow> x)"

section \<open>Price records, timestamps and Python errors\<close>

text \<open>The exceptions the modelled code can raise.\<close>

datatype py_error = ValueError | KeyError | ZeroDivisionError | TypeError

definition bindE :: "'e + 'a \<Rightarrow> ('a \<Rightarrow> 'e + 'b) \<Rightarrow> 'e + 'b" where
  "bindE m f = (case m of Inl e \<Rightarrow> Inl e | Inr x \<Rightarrow> f x)"

text \<open>
  A timestamp field holds a \<^verbatim>\<open>datetime\<close> or a string. \<open>IsoString (Some t)\<close> is a string
  that \<^verbatim>\<open>datetime.fromisoformat\<close> parses to \<open>t\<close>; \<open>IsoString None\<close> is a string on
  which it raises \<^verbatim>\<open>ValueError\<close>.
\<close>

datatype ts_value = Datetime datetime | IsoString "datetime option"

text \<open>A price dictionary: \<^verbatim>\<open>{'price': int, 'recorded_at' / 'timestamp': ...}\<close>.\<close>

record price_rec =
  price :: int
  recorded_at :: "ts_value option"
  timestamp :: "ts_value option"

datatype ts_field = RecordedAt | Timestamp

definition field_value :: "price_rec \<Rightarrow> ts_field \<Rightarrow> ts_value option" where
  "field_value p f = (case f of RecordedAt \<Rightarrow> recorded_at p | Timestamp \<Rightarrow> timestamp p)"

text \<open>\<^verbatim>\<open>'recorded_at' if 'recorded_at' in prices[0] else 'timestamp'\<close>.\<close>

definition choose_ts_field :: "price_rec \<Rightarrow> ts_field" where
  "choose_ts_field p0 = (if recorded_at p0 \<noteq> None then RecordedAt else Timestamp)"

definition get_timestamp :: "price_rec \<Rightarrow> ts_field \<Rightarrow> py_error + datetime" where
  "get_timestamp p f =
     (case field_value p f of
        None \<Rightarrow> Inl KeyError
      | Some (Datetime t) \<Rightarrow> Inr t
      | Some (IsoString None) \<Rightarrow> Inl ValueError
      | Some (IsoString (Some t)) \<Rightarrow> Inr t)"

text \<open>\<^verbatim>\<open>(now - ts).total_seconds() / 3600\<close>.\<close>

definition age_hours :: "datetime \<Rightarrow> datetime \<Rightarrow> real" where
  "age_hours now ts = (now - ts) / 3600"

text \<open>Python \<^verbatim>\<open>int(x)\<close> on a float truncates towards zero.\<close>

definition py_int :: "real \<Rightarrow> int" where
  "py_int x = (if 0 \<le> x then \<lfloor>x\<rfloor> else \<lceil>x\<rceil>)"

text \<open>Python \<^verbatim>\<open>round(x, n)\<close>: nearest multiple of \<open>10^-n\<close>, ties to even.\<close>

definition py_round :: "real \<Rightarrow> nat \<Rightarrow> real" where
  "py_round x n =
     (let y = x * 10 ^ n; f = \<lfloor>y\<rfloor>; d = y - real_of_int f
      in real_of_int (if d < 1 / 2 then f else if d > 1 / 2 then f + 1
                      else if even f then f else f + 1) / 10 ^ n)"

definition max_list :: "int list \<Rightarrow> int" where
  "max_list xs = - min_list (map uminus xs)"

text \<open>\<^verbatim>\<open>sum(xs) / len(xs)\<close> on a non-empty list of ints.\<close>

definition average :: "int list \<Rightarrow> real" where
  "average xs = real_of_int (sum_list xs) / real (length xs)"

text \<open>
  A formatted message: the f-string's template (non-ASCII glyphs left out) and the values
  formatted into it; a message put after a named glyph; or a message followed by a text.
\<close>

datatype msg = Msg string "real list" | Glyph string msg | Suffix msg string

section \<open>Pattern detection (\<^verbatim>\<open>velocity_v2.py\<close>)\<close>

text \<open>
  The loop \<^verbatim>\<open>for i in range(1, len(xs) - 1)\<close> that keeps \<open>xs[i]\<close> when its price is below
  both neighbours' prices.
\<close>

fun local_minima :: "(int \<times> 'a) list \<Rightarrow> (int \<times> 'a) list" where
  "local_minima (a # b # c # rest) =
     (if fst b < fst a \<and> fst b < fst c then b # local_minima (b # c # rest)
      else local_minima (b # c # rest))"
| "local_minima xs = []"

text \<open>\<^verbatim>\<open>low_touches[bucket] = low_touches.get(bucket, 0) + 1\<close> on an insertion-ordered dict.\<close>

fun bump_touch :: "int \<Rightarrow> (int \<times> int) list \<Rightarrow> (int \<times> int) list" where
  "bump_touch b [] = [(b, 1)]"
| "bump_touch b ((k, v) # r) = (if k = b then (k, v + 1) # r else (k, v) # bump_touch b r)"

text \<open>\<^verbatim>\<open>max(items, key=lambda x: x[1])\<close>: the first item with the greatest count.\<close>

fun first_max_by_count :: "(int \<times> int) \<Rightarrow> (int \<times> int) list \<Rightarrow> (int \<times> int)" where
  "first_max_by_count best [] = best"
| "first_max_by_count best (kv # r) = first_max_by_count (if snd kv > snd best then kv else best) r"

definition find_support_levels :: "price_rec list \<Rightarrow> int option \<times> int" where
  "find_support_levels prices =
     (if length prices < 20 then (None, 0)
      else
        let price_values = map price prices;
            min_price = min_list price_values;
            max_price = max_list price_values
        in if max_price = min_price then (None, 0)
           else
             let bucket_size = max 1 (py_int (real_of_int min_price * 0.02));
                 lows = local_minima (map (\<lambda>p. (price p, ())) prices);
                 low_touches = fold (\<lambda>l acc. bump_touch ((fst l div bucket_size) * bucket_size) acc) lows []
             in case low_touches of
                  [] \<Rightarrow> (None, 0)
                | kv # r \<Rightarrow> (case first_max_by_count kv r of (b, n) \<Rightarrow> (Some b, n)))"

text \<open>The window loop of \<^verbatim>\<open>_detect_higher_lows\<close>: parse every timestamp, keep those at or after the cutoff.\<close>

fun window_since :: "price_rec list \<Rightarrow> ts_field \<Rightarrow> datetime \<Rightarrow> py_error + (int \<times> datetime) list" where
  "window_since [] f cutoff = Inr []"
| "window_since (p # ps) f cutoff =
     bindE (get_timestamp p f) (\<lambda>ts.
       bindE (window_since ps f cutoff) (\<lambda>rest.
         Inr (if ts \<ge> cutoff then (price p, ts) # rest else rest)))"

definition detect_higher_lows :: "price_rec list \<Rightarrow> ts_field \<Rightarrow> int \<Rightarrow> datetime \<Rightarrow> py_error + bool" where
  "detect_higher_lows prices f window_days now =
     (if length prices < 10 then Inr False
      else
        bindE (window_since prices f (now - real_of_int window_days * 86400)) (\<lambda>window_prices.
          if length window_prices < 5 then Inr False
          else
            let lows = local_minima window_prices
            in if length lows < 2 then Inr False
               else
                 let mid = length lows div 2;
                     early_lows = map fst (take mid lows);
                     recent_lows = map fst (drop mid lows)
                 in if early_lows = [] \<or> recent_lows = [] then Inr False
                    else Inr (average recent_lows > average early_lows * 1.02)))"

text \<open>
  \<^verbatim>\<open>_calculate_trend_days\<close>. The day key \<^verbatim>\<open>ts.strftime('%Y-%m-%d')\<close> is the number of the
  day, \<open>\<lfloor>ts / 86400\<rfloor>\<close>; sorting the keys in reverse is sorting the numbers downwards.
\<close>

definition day_key :: "datetime \<Rightarrow> int" where
  "day_key ts = \<lfloor>ts / 86400\<rfloor>"

fun day_prices :: "price_rec list \<Rightarrow> ts_field \<Rightarrow> py_error + (int \<times> int) list" where
  "day_prices [] f = Inr []"
| "day_prices (p # ps) f =
     bindE (get_timestamp p f) (\<lambda>ts.
       bindE (day_prices ps f) (\<lambda>rest. Inr ((day_key ts, price p) # rest)))"

definition daily_avgs :: "(int \<times> int) list \<Rightarrow> real list" where
  "daily_avgs dps =
     map (\<lambda>d. average (map snd (filter (\<lambda>dp. fst dp = d) dps)))
         (rev (sort (remdups (map fst dps))))"

fun streak_from :: "int \<Rightarrow> real list \<Rightarrow> int" where
  "streak_from dir (a # b # rest) =
     (if (if a > b then 1 else if a < b then - 1 else 0) = dir
      then 1 + streak_from dir (b # rest) else 0)"
| "streak_from dir xs = 0"

definition calculate_trend_days :: "price_rec list \<Rightarrow> ts_field \<Rightarrow> py_error + int" where
  "calculate_trend_days prices f =
     (if length prices < 2 then Inr 0
      else
        bindE (day_prices prices f) (\<lambda>dps.
          case daily_avgs dps of
            a # b # rest \<Rightarrow>
              (let current_direction = (if a > b then 1 else - 1)
               in Inr (streak_from current_direction (a # b # rest) * current_direction))
          | _ \<Rightarrow> Inr 0))"

definition calculate_confidence :: "int \<Rightarrow> real \<Rightarrow> real \<Rightarrow> string \<times> int" where
  "calculate_confidence data_pts hours_of_dat price_variance =
     (let s1 = 50 + (if data_pts \<ge> 100 then 25 else if data_pts \<ge> 50 then 15
                     else if data_pts \<ge> 20 then 5 else - 15);
          s2 = s1 + (if hours_of_dat \<ge> 168 then 15 else if hours_of_dat \<ge> 48 then 8
                     else if hours_of_dat \<ge> 12 then 3 else - 10);
          s3 = s2 + (if price_variance < 5 then 10 else if price_variance < 10 then 5
                     else if price_variance > 30 then - 10 else 0);
          score = max 0 (min 100 s3)
      in if score \<ge> 75 then (''HIGH'', score)
         else if score \<ge> 50 then (''MEDIUM'', score)
         else (''LOW'', score))"

section \<open>Velocity analysis (\<^verbatim>\<open>calculate_velocity_v2\<close>)\<close>

record velocity_analysis_v2 =
  velocity_1h :: real
  velocity_2h :: real
  velocity_6h :: real
  velocity_24h :: real
  acceleration :: real
  is_decelerating :: bool
  deceleration_hours :: int
  state :: string
  has_higher_lows :: bool
  support_level :: "int option"
  times_bounced_at_support :: int
  hours_since_low :: real
  days_in_trend :: int
  confidence :: string
  confidence_score :: int
  data_points :: int
  hours_of_data :: real
  description :: msg
  buy_readiness :: string
  buy_readiness_reason :: msg

definition target_hours :: "int list" where
  "target_hours = [1, 2, 4, 6, 12, 24, 48]"

text \<open>The dictionary \<^verbatim>\<open>price_windows\<close>; the key \<^verbatim>\<open>f"{target}h"\<close> is the target itself.\<close>

type_synonym price_windows = "int \<rightharpoonup> (int \<times> real)"

text \<open>The inner loop over the targets, for one sample of price \<open>pr\<close> and age \<open>age\<close>.\<close>

fun scan_targets :: "int list \<Rightarrow> int \<Rightarrow> real \<Rightarrow> price_windows \<Rightarrow> price_windows" where
  "scan_targets [] pr age w = w"
| "scan_targets (t # ts) pr age w =
     scan_targets ts pr age
       (if w t = None \<and> real_of_int t * 0.5 \<le> age \<and> age \<le> real_of_int t * 1.5
        then w(t \<mapsto> (pr, age)) else w)"

text \<open>The outer loop over the samples, in list order.\<close>

fun find_price_windows ::
  "price_rec list \<Rightarrow> ts_field \<Rightarrow> datetime \<Rightarrow> price_windows \<Rightarrow> py_error + price_windows" where
  "find_price_windows [] f now w = Inr w"
| "find_price_windows (p # ps) f now w =
     bindE (get_timestamp p f) (\<lambda>ts.
       find_price_windows ps f now (scan_targets target_hours (price p) (age_hours now ts) w))"

definition calc_velocity :: "int \<Rightarrow> price_windows \<Rightarrow> int \<Rightarrow> real" where
  "calc_velocity current w window_key =
     (case w window_key of
        None \<Rightarrow> 0
      | Some (old_price, hours) \<Rightarrow>
          if old_price = 0 \<or> hours = 0 then 0
          else (real_of_int (current - old_price) / real_of_int old_price * 100) / hours)"

text \<open>Python \<^verbatim>\<open>x or y\<close> on numbers.\<close>

definition py_or :: "real \<Rightarrow> real \<Rightarrow> real" where
  "py_or x y = (if x = 0 then y else x)"

definition acceleration_of :: "int \<Rightarrow> price_windows \<Rightarrow> real" where
  "acceleration_of current w =
     (case (w 2, w 4) of
        (Some (p_2h, h_2h), Some (p_4h, h_4h)) \<Rightarrow>
          if p_4h > 0 \<and> h_4h - h_2h > 0
          then calc_velocity current w 2
                 - (real_of_int (p_2h - p_4h) / real_of_int p_4h * 100) / (h_4h - h_2h)
          else 0
      | _ \<Rightarrow> 0)"

definition deceleration_of :: "real \<Rightarrow> real \<Rightarrow> real \<Rightarrow> real \<Rightarrow> bool \<times> int" where
  "deceleration_of v_1h v_2h v_6h accel =
     (if v_2h < - 0.3 \<and> accel > 0.2
      then (True, (let d1 = (if v_1h > v_2h then 1 else 0)
                   in if v_2h > v_6h then max d1 2 else d1))
      else (False, 0))"

text \<open>\<^verbatim>\<open>prices[all_prices.index(min_price)]\<close>: the first record with the least price.\<close>

definition first_min_rec :: "price_rec list \<Rightarrow> price_rec option" where
  "first_min_rec prices = find (\<lambda>p. price p = min_list (map price prices)) prices"

text \<open>
  The state classification: \<open>(state, description, buy_readiness, buy_reason)\<close>. Formatting
  \<^verbatim>\<open>{support_level:,}\<close> raises \<^verbatim>\<open>TypeError\<close> on \<^verbatim>\<open>None\<close>.
\<close>

definition classify_momentum ::
  "real \<Rightarrow> real \<Rightarrow> real \<Rightarrow> bool \<Rightarrow> int \<Rightarrow> bool \<Rightarrow> real \<Rightarrow> int option \<Rightarrow> int
     \<Rightarrow> py_error + (string \<times> msg \<times> string \<times> msg)" where
  "classify_momentum v_1h v_2h v_6h is_dec dec_hours higher_lows since_low support times_bounced =
     (let sustained_falling = (v_1h < - 0.5 \<and> v_2h < - 0.3);
          sustained_rising = (v_1h > 0.5 \<and> v_2h > 0.3)
      in if sustained_falling then
           (if v_1h < - 2 \<and> v_2h < - 1.5 then
              Inr (''FREEFALL'', Msg ''FREEFALL: -{abs(v_1h):.1f}%/h sustained'' [\<bar>v_1h\<bar>],
                   ''AVOID'', Msg ''Sustained rapid decline - wait for deceleration'' [])
            else if is_dec \<and> dec_hours \<ge> 2 then
              (if higher_lows then
                 Inr (''BOTTOMING'', Msg ''BOTTOMING: Higher lows + deceleration'' [],
                      ''ALMOST'', Msg ''Strong reversal signals, wait for stability confirmation'' [])
               else if since_low > 12 \<and> times_bounced \<ge> 2 then
                 (case support of
                    None \<Rightarrow> Inl TypeError
                  | Some s \<Rightarrow>
                      Inr (''BOTTOMING'', Msg ''BOTTOMING: Testing support level'' [],
                           ''ALMOST'',
                           Msg ''Price near support ({support_level:,}), bounced {times_bounced}x''
                             [real_of_int s, real_of_int times_bounced]))
               else
                 Inr (''DECELERATING'',
                      Msg ''Falling but SLOWING ({v_1h:.1f}%/h, was {v_6h:.1f}%/h)'' [v_1h, v_6h],
                      ''WAIT'', Msg ''Slowing but not confirmed - need more signals'' []))
            else if is_dec then
              Inr (''DECELERATING'', Msg ''Falling, starting to slow'' [],
                   ''WAIT'', Msg ''Early deceleration - needs 2+ hours to confirm'' [])
            else
              Inr (''FALLING'', Msg ''Falling {abs(v_1h):.1f}%/h'' [\<bar>v_1h\<bar>],
                   ''AVOID'', Msg ''Active decline with no slowing'' []))
         else if sustained_rising then
           (if v_1h > 2 then
              Inr (''SURGING'', Msg ''SURGING: +{v_1h:.1f}%/h'' [v_1h],
                   ''WAIT'', Msg ''Already surging - likely missed the bottom'' [])
            else
              Inr (''RISING'', Msg ''Rising {v_1h:.1f}%/h'' [v_1h],
                   ''WAIT'', Msg ''Price rising - wait for pullback'' []))
         else if \<bar>v_1h\<bar> < 0.3 \<and> \<bar>v_2h\<bar> < 0.2 then
           (if since_low \<le> 48 \<and> higher_lows then
              Inr (''STABLE'', Msg ''Stable (+-{abs(v_1h):.1f}%/h)'' [\<bar>v_1h\<bar>],
                   ''READY'', Msg ''Stable after recent low with higher lows pattern'' [])
            else if since_low \<le> 24 then
              Inr (''STABLE'', Msg ''Stable (+-{abs(v_1h):.1f}%/h)'' [\<bar>v_1h\<bar>],
                   ''READY'', Msg ''Stable near recent low - good entry'' [])
            else if since_low \<le> 72 then
              Inr (''STABLE'', Msg ''Stable (+-{abs(v_1h):.1f}%/h)'' [\<bar>v_1h\<bar>],
                   ''ALMOST'', Msg ''Stable but low was 2-3 days ago'' [])
            else
              Inr (''STABLE'', Msg ''Stable (+-{abs(v_1h):.1f}%/h)'' [\<bar>v_1h\<bar>],
                   ''WAIT'', Msg ''Stable but no recent low - not a dip buy'' []))
         else
           Inr (''CHOPPY'', Msg ''Choppy ({v_1h:+.1f}%/h)'' [v_1h],
                ''WAIT'', Msg ''Unpredictable movement'' []))"

definition calculate_velocity_v2 ::
  "price_rec list \<Rightarrow> int option \<Rightarrow> datetime \<Rightarrow> py_error + velocity_analysis_v2 option" where
  "calculate_velocity_v2 prices current_price now =
     (case prices of
        [] \<Rightarrow> Inr None
      | p0 # rest \<Rightarrow>
          if length prices < 3 then Inr None
          else
            let f = choose_ts_field p0
            in if field_value p0 f = None then Inr None
               else
                 let current = (case current_price of
                                  None \<Rightarrow> price p0
                                | Some c \<Rightarrow> if c = 0 then price p0 else c)
                 in
                 bindE (find_price_windows prices f now Map.empty) (\<lambda>w.
                   let v_1h = calc_velocity current w 1;
                       v_2h = calc_velocity current w 2;
                       v_6h = py_or (calc_velocity current w 6) v_2h;
                       v_24h = py_or (calc_velocity current w 24) v_6h;
                       accel = acceleration_of current w;
                       dec = deceleration_of v_1h v_2h v_6h accel;
                       all_prices = map price prices
                   in
                   bindE (case first_min_rec prices of
                            None \<Rightarrow> Inl ValueError
                          | Some pm \<Rightarrow> get_timestamp pm f) (\<lambda>min_ts.
                   bindE (calculate_trend_days prices f) (\<lambda>trend_days.
                   bindE (detect_higher_lows prices f 7 now) (\<lambda>higher_lows.
                   bindE (get_timestamp (last prices) f) (\<lambda>oldest.
                     let since_low = age_hours now min_ts;
                         support = find_support_levels prices;
                         hours_of_dat = age_hours now oldest;
                         price_variance =
                           (if min_list all_prices > 0
                            then real_of_int (max_list all_prices - min_list all_prices)
                                   / real_of_int (min_list all_prices) * 100
                            else 0);
                         conf = calculate_confidence (int (length prices)) hours_of_dat price_variance
                     in
                     bindE (classify_momentum v_1h v_2h v_6h (fst dec) (snd dec) higher_lows
                              since_low (fst support) (snd support)) (\<lambda>cls.
                       Inr (Some
                         \<lparr>velocity_1h = py_round v_1h 2,
                          velocity_2h = py_round v_2h 2,
                          velocity_6h = py_round v_6h 2,
                          velocity_24h = py_round v_24h 2,
                          acceleration = py_round accel 2,
                          is_decelerating = fst dec,
                          deceleration_hours = snd dec,
                          state = fst cls,
                          has_higher_lows = higher_lows,
                          support_level = fst support,
                          times_bounced_at_support = snd support,
                          hours_since_low = py_round since_low 1,
                          days_in_trend = trend_days,
                          confidence = fst conf,
                          confidence_score = snd conf,
                          data_points = int (length prices),
                          hours_of_data = py_round hours_of_dat 1,
                          description = fst (snd cls),
                          buy_readiness = fst (snd (snd cls)),
                          buy_readiness_reason = snd (snd (snd cls))\<rparr>))))))))"

section \<open>Stabilization (\<^verbatim>\<open>check_stabilization_v2\<close>)\<close>

text \<open>The window loop: \<open>(price, age_hours)\<close> of the samples aged at most \<open>min_hours\<close>.\<close>

fun window_within :: "price_rec list \<Rightarrow> ts_field \<Rightarrow> datetime \<Rightarrow> real \<Rightarrow> py_error + (int \<times> real) list" where
  "window_within [] f now min_hours = Inr []"
| "window_within (p # ps) f now min_hours =
     bindE (get_timestamp p f) (\<lambda>ts.
       bindE (window_within ps f now min_hours) (\<lambda>rest.
         Inr (if age_hours now ts \<le> min_hours then (price p, age_hours now ts) # rest else rest)))"

text \<open>The loop \<^verbatim>\<open>for h in range(1, int(min_hours) + 1)\<close>; the division raises on a zero minimum.\<close>

fun stable_hours_loop :: "int list \<Rightarrow> (int \<times> real) list \<Rightarrow> real \<Rightarrow> int \<Rightarrow> py_error + int" where
  "stable_hours_loop [] wp max_variance_pct stable_hours = Inr stable_hours"
| "stable_hours_loop (h # hs) wp max_variance_pct stable_hours =
     (let h_prices = map fst (filter (\<lambda>p. snd p \<le> real_of_int h) wp)
      in if length h_prices \<ge> 2 then
           (if min_list h_prices = 0 then Inl ZeroDivisionError
            else stable_hours_loop hs wp max_variance_pct
                   (if real_of_int (max_list h_prices - min_list h_prices)
                         / real_of_int (min_list h_prices) * 100 \<le> max_variance_pct
                    then h else stable_hours))
         else stable_hours_loop hs wp max_variance_pct stable_hours)"

definition check_stabilization_v2 ::
  "price_rec list \<Rightarrow> real \<Rightarrow> real \<Rightarrow> datetime \<Rightarrow> py_error + (bool \<times> msg \<times> int)" where
  "check_stabilization_v2 prices min_hours max_variance_pct now =
     (case prices of
        [] \<Rightarrow> Inr (False, Msg ''Insufficient data'' [], 0)
      | p0 # rest \<Rightarrow>
          if length prices < 5 then Inr (False, Msg ''Insufficient data'' [], 0)
          else
            let f = choose_ts_field p0
            in if field_value p0 f = None then Inr (False, Msg ''Missing timestamp data'' [], 0)
               else
                 bindE (window_within prices f now min_hours) (\<lambda>window_prices.
                   if length window_prices < 5
                   then Inr (False, Msg ''Only {len(window_prices)} points in {min_hours}h window''
                                      [real (length window_prices), min_hours], 0)
                   else
                     let prices_only = map fst window_prices;
                         min_price = min_list prices_only;
                         max_price = max_list prices_only
                     in if min_price = 0 then Inr (False, Msg ''Invalid price data'' [], 0)
                        else
                          let variance_pct =
                                real_of_int (max_price - min_price) / real_of_int min_price * 100
                          in if variance_pct > max_variance_pct
                             then Inr (False, Msg ''Volatile: {variance_pct:.1f}% variance'' [variance_pct], 0)
                             else
                               let mid = length window_prices div 2;
                                   older_low = min_list (map fst (drop mid window_prices));
                                   newer_low = min_list (map fst (take mid window_prices))
                               in if real_of_int newer_low < real_of_int older_low * 0.98
                                  then Inr (False, Msg ''Still making new lows'' [], 0)
                                  else
                                    bindE (stable_hours_loop [1 .. py_int min_hours] window_prices
                                             max_variance_pct 0) (\<lambda>stable_hours.
                                      if real_of_int newer_low > real_of_int older_low * 1.01
                                      then Inr (True, Msg ''Consolidating {stable_hours}h (higher lows)''
                                                        [real_of_int stable_hours], stable_hours)
                                      else Inr (True, Msg ''Stable {stable_hours}h ({variance_pct:.1f}% var)''
                                                        [real_of_int stable_hours, variance_pct],
                                                stable_hours))))"

section \<open>The persisted per-player hysteresis state\<close>

text \<open>
  A document of the \<^verbatim>\<open>player_states\<close> collection. The reader uses \<^verbatim>\<open>.get\<close> with a
  default on every field, so every field is optional in the model.
\<close>

record player_state =
  ps_state :: "string option"
  ps_readiness :: "string option"
  ps_score :: "int option"
  ps_price :: "int option"
  ps_updated_at :: "datetime option"

text \<open>A player document, a held position, and an entry of the signal log.\<close>

record player =
  pl_id :: string
  pl_name :: string
  pl_futbin_id :: int
  pl_slug :: "string option"

record position =
  pos_player_id :: string
  pos_buy_price :: int
  pos_id :: "string option"
  pos_quantity :: "int option"

record log_entry =
  log_player_id :: string
  log_platform :: string
  log_direction :: string
  log_raw_score :: int
  log_final_score :: int
  log_components :: "(string \<times> int) list"
  log_velocity_state :: "string option"
  log_buy_readiness :: "string option"
  log_market_state :: string
  log_signal_type :: string
  log_price :: int
  log_timestamp :: datetime

text \<open>
  The database as the signal engine sees it. \<open>players\<close>, \<open>active_players\<close>, \<open>latest_price\<close>
  and \<open>price_history\<close> are the results of \<^verbatim>\<open>get_player\<close>, \<^verbatim>\<open>get_active_players\<close>,
  \<^verbatim>\<open>get_latest_price(player_id, platform)\<close> and
  \<^verbatim>\<open>get_price_history(player_id, platform, days, limit)\<close>, taken as given. The collection
  \<^verbatim>\<open>player_states\<close> is keyed by \<open>(player_id, platform)\<close>. \<open>find_fails\<close>, \<open>update_fails\<close>
  and \<open>log_fails\<close> stand for the store raising on a read of \<^verbatim>\<open>player_states\<close>, on a write
  to it, and on a write to \<^verbatim>\<open>signal_log\<close>; all three are caught by the source.
\<close>

record database =
  players :: "string \<rightharpoonup> player"
  active_players :: "player list"
  latest_price :: "string \<Rightarrow> string \<Rightarrow> price_rec option"
  price_history :: "string \<Rightarrow> string \<Rightarrow> nat \<Rightarrow> nat \<Rightarrow> price_rec list"
  player_states :: "(string \<times> string) \<rightharpoonup> player_state"
  signal_log :: "log_entry list"
  find_fails :: bool
  update_fails :: bool
  log_fails :: bool

definition get_player_state :: "database \<Rightarrow> string \<Rightarrow> string \<Rightarrow> player_state option" where
  "get_player_state st platform player_id =
     (if find_fails st then None else player_states st (player_id, platform))"

definition save_player_state ::
  "database \<Rightarrow> string \<Rightarrow> string \<Rightarrow> string \<Rightarrow> string \<Rightarrow> int \<Rightarrow> int \<Rightarrow> datetime \<Rightarrow> database" where
  "save_player_state st platform player_id new_state readiness new_score new_price now =
     (if update_fails st then st
      else st\<lparr>player_states := (player_states st)((player_id, platform) \<mapsto>
             \<lparr>ps_state = Some new_state, ps_readiness = Some readiness, ps_score = Some new_score,
              ps_price = Some new_price, ps_updated_at = Some now\<rparr>)\<rparr>)"

section \<open>Hysteresis\<close>

text \<open>\<^verbatim>\<open>readiness_levels.get(r, 1)\<close>.\<close>

definition readiness_levels :: "string \<Rightarrow> int" where
  "readiness_levels r =
     (if r = ''AVOID'' then 0 else if r = ''WAIT'' then 1 else if r = ''ALMOST'' then 2
      else if r = ''READY'' then 3 else 1)"

text \<open>
  The ordinal readiness scale as the specification words it:
  AVOID = 0 < WAIT = 1 < ALMOST = 2 < READY = 3. It is not taken from the code; the
  properties below compare the code against it.
\<close>

definition spec_ordinal :: "string \<Rightarrow> int option" where
  "spec_ordinal r =
     (if r = ''AVOID'' then Some 0 else if r = ''WAIT'' then Some 1
      else if r = ''ALMOST'' then Some 2 else if r = ''READY'' then Some 3 else None)"

definition hours_since_update :: "player_state \<Rightarrow> datetime \<Rightarrow> real" where
  "hours_since_update ps now = (now - get_or (ps_updated_at ps) now) / 3600"

definition price_change_pct :: "player_state \<Rightarrow> int \<Rightarrow> real" where
  "price_change_pct ps current_price =
     (let prev_price = get_or (ps_price ps) current_price
      in if prev_price > 0
         then real_of_int (current_price - prev_price) / real_of_int prev_price * 100
         else 0)"

definition apply_hysteresis ::
  "database \<Rightarrow> string \<Rightarrow> string \<Rightarrow> string \<Rightarrow> string \<Rightarrow> int \<Rightarrow> int \<Rightarrow> datetime
     \<Rightarrow> string \<times> string \<times> int" where
  "apply_hysteresis st platform player_id new_state new_readiness new_score current_price now =
     (case get_player_state st platform player_id of
        None \<Rightarrow> (new_state, new_readiness, new_score)
      | Some ps \<Rightarrow>
          let prev_readiness = get_or (ps_readiness ps) ''WAIT'';
              prev_score = get_or (ps_score ps) 50
          in if prev_readiness = ''READY'' \<and> hours_since_update ps now < 2
                \<and> price_change_pct ps current_price > - 3 \<and> new_readiness \<noteq> ''READY''
             then (get_or (ps_state ps) new_state, ''READY'', max (prev_score - 5) new_score)
             else
               let score_diff = new_score - prev_score;
                   new_level = readiness_levels new_readiness;
                   prev_level = readiness_levels prev_readiness
               in if new_level > prev_level then
                    (if score_diff < 10
                     then (get_or (ps_state ps) new_state, prev_readiness, prev_score)
                     else (new_state, new_readiness, new_score))
                  else if new_level < prev_level then
                    (if score_diff > - 15
                     then (get_or (ps_state ps) new_state, prev_readiness, prev_score)
                     else (new_state, new_readiness, new_score))
                  else (new_state, new_readiness, new_score))"

section \<open>Signal scoring (\<^verbatim>\<open>smart_signals.py\<close>)\<close>

record trade_signal =
  sig_player_id :: string
  sig_player_name :: string
  sig_signal_type :: string
  sig_score :: int
  sig_reasons :: "msg list"
  sig_warnings :: "msg list"
  sig_current_price :: int
  sig_recommendation :: msg
  sig_velocity :: "velocity_analysis_v2 option"
  sig_confidence :: string

text \<open>The market pulse and the long-term range summary, as far as scoring reads them.\<close>

record market_pulse =
  status :: string
  pct_at_lows :: real
  pct_at_highs :: real
  pct_trending_down :: real
  avg_position_in_range :: real

record longterm =
  lt_data_points :: int
  lt_position_in_range :: real
  lt_all_time_low :: int
  lt_recent_position :: "real option"
  lt_bounce_from_low :: "real option"
  lt_recent_low :: "int option"

text \<open>The outcome of a call inside a \<^verbatim>\<open>try\<close> block: it raises, or it returns a value.\<close>

datatype 'a fetch = Raises | Returns 'a

text \<open>
  The external providers: \<^verbatim>\<open>get_pulse_analyzer(platform).get_pulse()\<close> and
  \<^verbatim>\<open>get_longterm_daily_prices(futbin_id, slug, cache_only=True)\<close> for a player.
\<close>

record providers =
  get_pulse :: "market_pulse option fetch"
  get_longterm_daily_prices :: "player \<Rightarrow> longterm option fetch"

text \<open>\<^verbatim>\<open>"new low" in stability_reason.lower()\<close>, on the template of the message.\<close>

definition lower_char :: "char \<Rightarrow> char" where
  "lower_char c = (let n = (of_char c :: nat) in if 65 \<le> n \<and> n \<le> 90 then char_of (n + 32) else c)"

fun starts_with :: "string \<Rightarrow> string \<Rightarrow> bool" where
  "starts_with [] s = True"
| "starts_with (a # as) [] = False"
| "starts_with (a # as) (c # cs) = (a = c \<and> starts_with as cs)"

fun contains_text :: "string \<Rightarrow> string \<Rightarrow> bool" where
  "contains_text sub [] = (sub = [])"
| "contains_text sub (c # cs) = (starts_with sub (c # cs) \<or> contains_text sub cs)"

fun msg_template :: "msg \<Rightarrow> string" where
  "msg_template (Msg t args) = t"
| "msg_template (Glyph g m) = msg_template m"
| "msg_template (Suffix m t) = msg_template m @ t"

definition mentions_new_low :: "msg \<Rightarrow> bool" where
  "mentions_new_low m = contains_text ''new low'' (map lower_char (msg_template m))"

definition calculate_timing_score ::
  "velocity_analysis_v2 option \<Rightarrow> bool \<times> msg \<times> int \<Rightarrow> int \<times> msg list \<times> msg list" where
  "calculate_timing_score velocity_opt stabilization_result =
     (case stabilization_result of (is_stable, stability_reason, stable_hours) \<Rightarrow>
      case velocity_opt of
        None \<Rightarrow> (0, [], [Glyph ''warning'' (Msg ''No velocity data'' [])])
      | Some v \<Rightarrow>
          let favourable = (buy_readiness v = ''READY'' \<or> buy_readiness v = ''ALMOST'');
              primary =
                (if buy_readiness v = ''READY'' then
                   (22, [Glyph ''check'' (description v), Glyph ''check'' (buy_readiness_reason v)], [])
                 else if buy_readiness v = ''ALMOST'' then
                   (10, [Glyph ''check'' (description v)], [Glyph ''hourglass'' (buy_readiness_reason v)])
                 else if buy_readiness v = ''WAIT'' then
                   (- 5, [], [Glyph ''warning'' (description v), Glyph ''indent'' (buy_readiness_reason v)])
                 else if buy_readiness v = ''AVOID'' then
                   (- 25, [], [Glyph ''siren'' (description v), Glyph ''indent'' (buy_readiness_reason v)])
                 else (0, [], []));
              stab =
                (case primary of (s, rs, ws) \<Rightarrow>
                   if is_stable \<and> stable_hours \<ge> 4 \<and> favourable then
                     (s + 5, rs @ [Glyph ''check'' (Msg ''Stable for {stable_hours:.0f}h (confirmed)''
                                                      [real_of_int stable_hours])], ws)
                   else if \<not> is_stable \<and> mentions_new_low stability_reason then
                     (s - 5, rs, ws @ [Glyph ''cross'' stability_reason])
                   else (s, rs, ws));
              supp =
                (case stab of (s, rs, ws) \<Rightarrow>
                   if support_level v \<noteq> None \<and> support_level v \<noteq> Some 0
                      \<and> times_bounced_at_support v \<ge> 2 \<and> favourable then
                     (s + 3, rs @ [Glyph ''check'' (Msg ''Support at {support_level:,} ({times_bounced_at_support}x)''
                                     [real_of_int (get_or (support_level v) 0),
                                      real_of_int (times_bounced_at_support v)])], ws)
                   else (s, rs, ws));
              trend =
                (case supp of (s, rs, ws) \<Rightarrow>
                   if days_in_trend v < - 3 then
                     (s - 3, rs, ws @ [Glyph ''warning'' (Msg ''Downtrend for {abs(days_in_trend)} days''
                                        [real_of_int \<bar>days_in_trend v\<bar>])])
                   else if days_in_trend v > 2 then
                     (s, rs, ws @ [Glyph ''warning'' (Msg ''Already up for {days_in_trend} days''
                                    [real_of_int (days_in_trend v)])])
                   else (s, rs, ws))
          in case trend of (s, rs, ws) \<Rightarrow> (max (- 30) (min 30 s), rs, ws))"

text \<open>\<^verbatim>\<open>_log_signal\<close>: append one entry to the signal log; a failing write is swallowed.\<close>

definition log_signal ::
  "database \<Rightarrow> string \<Rightarrow> string \<Rightarrow> string \<Rightarrow> int \<Rightarrow> int \<Rightarrow> (string \<times> int) list
     \<Rightarrow> velocity_analysis_v2 option \<Rightarrow> string \<Rightarrow> string \<Rightarrow> int \<Rightarrow> datetime \<Rightarrow> database" where
  "log_signal db platform player_id direction raw_score final_score components velocity_opt
       market_state signal_type price_now now =
     (if log_fails db then db
      else db\<lparr>signal_log := signal_log db @
             [\<lparr>log_player_id = player_id, log_platform = platform, log_direction = direction,
               log_raw_score = raw_score, log_final_score = final_score,
               log_components = components,
               log_velocity_state = map_option state velocity_opt,
               log_buy_readiness = map_option buy_readiness velocity_opt,
               log_market_state = market_state, log_signal_type = signal_type,
               log_price = price_now, log_timestamp = now\<rparr>]\<rparr>)"

subsection \<open>The buy score\<close>

text \<open>The market-pulse block of \<^verbatim>\<open>get_buy_score\<close>: \<open>(market_score, market_state, reasons, warnings)\<close>.\<close>

definition buy_market_component :: "market_pulse option fetch \<Rightarrow> int \<times> string \<times> msg list \<times> msg list" where
  "buy_market_component pulse_fetch =
     (case pulse_fetch of
        Raises \<Rightarrow> (0, ''UNKNOWN'', [], [])
      | Returns None \<Rightarrow> (0, ''UNKNOWN'', [], [])
      | Returns (Some pulse) \<Rightarrow>
          if status pulse = ''CRASHED'' then
            (15, status pulse,
             [Glyph ''check'' (Msg ''MARKET CRASHED ({pct_at_lows:.0f}% at lows)'' [pct_at_lows pulse])], [])
          else if status pulse = ''CRASHING'' then
            (- 15, status pulse, [],
             [Glyph ''siren'' (Msg ''MARKET CRASHING ({pct_trending_down:.0f}% falling)'' [pct_trending_down pulse])])
          else if status pulse = ''INFLATED'' then
            (- 15, status pulse, [],
             [Glyph ''cross'' (Msg ''MARKET INFLATED ({pct_at_highs:.0f}% at highs)'' [pct_at_highs pulse])])
          else if status pulse = ''RECOVERING'' then
            (5, status pulse,
             [Glyph ''check'' (Msg ''Market recovering ({avg_position_in_range:.0f}%)'' [avg_position_in_range pulse])], [])
          else (0, status pulse, [], []))"

text \<open>
  The historical-position block of \<^verbatim>\<open>get_buy_score\<close>:
  \<open>(position_score, bounce_penalty, reasons, warnings)\<close>.
\<close>

definition buy_position_component ::
  "longterm option fetch \<Rightarrow> int \<Rightarrow> int \<times> int \<times> msg list \<times> msg list" where
  "buy_position_component longterm_fetch current_price =
     (case longterm_fetch of
        Raises \<Rightarrow> (0, 0, [], [Glyph ''warning'' (Msg ''No historical range data'' [])])
      | Returns None \<Rightarrow> (0, 0, [], [])
      | Returns (Some lt) \<Rightarrow>
          if lt_data_points lt \<ge> 30 then
            let recent_position = get_or (lt_recent_position lt) (lt_position_in_range lt);
                bounce_from_low = get_or (lt_bounce_from_low lt) 0;
                recent_low = get_or (lt_recent_low lt) (lt_all_time_low lt);
                bounce =
                  (if bounce_from_low \<ge> 50 then
                     (- 20, [Glyph ''siren'' (Msg ''Already bounced {bounce_from_low:.0f}% off low!'' [bounce_from_low]),
                             Glyph ''indent'' (Msg ''Low: {recent_low:,} -> Now: {current_price:,}''
                                                [real_of_int recent_low, real_of_int current_price])])
                   else if bounce_from_low \<ge> 30 then
                     (- 12, [Glyph ''warning'' (Msg ''Up {bounce_from_low:.0f}% from recent low'' [bounce_from_low])])
                   else if bounce_from_low \<ge> 15 then
                     (- 5, [Glyph ''warning'' (Msg ''Bounced {bounce_from_low:.0f}% already'' [bounce_from_low])])
                   else (0, []));
                pos =
                  (if recent_position \<ge> 80 then
                     (- 15, [], [Glyph ''siren'' (Msg ''Near 30-day HIGH ({recent_position:.0f}%)'' [recent_position])])
                   else if recent_position \<ge> 60 then
                     (- 8, [], [Glyph ''warning'' (Msg ''Upper range ({recent_position:.0f}%)'' [recent_position])])
                   else if recent_position \<le> 15 then
                     (15, [Glyph ''fire'' (Msg ''Near 30-day LOW! ({recent_position:.0f}%)'' [recent_position])], [])
                   else if recent_position \<le> 30 then
                     (8, [Glyph ''check'' (Msg ''Lower range ({recent_position:.0f}%)'' [recent_position])], [])
                   else if recent_position \<le> 45 then
                     (3, [Glyph ''check'' (Msg ''Below mid ({recent_position:.0f}%)'' [recent_position])], [])
                   else (0, [], []))
            in (fst pos, fst bounce, fst (snd pos), snd bounce @ snd (snd pos))
          else (0, 0, [], []))"

text \<open>The mapping from the smoothed score to \<open>(signal_type, recommendation)\<close>.\<close>

definition buy_signal_type :: "int \<Rightarrow> int \<Rightarrow> string \<times> msg" where
  "buy_signal_type s current_price =
     (if s \<ge> 75 then (''STRONG BUY'', Msg ''Multiple factors aligned. Good entry at {current_price:,}''
                                       [real_of_int current_price])
      else if s \<ge> 60 then (''BUY'', Msg ''Good opportunity at {current_price:,}'' [real_of_int current_price])
      else if s \<ge> 45 then (''HOLD'', Msg ''Conditions okay but not ideal. Consider waiting.'' [])
      else if s \<ge> 30 then (''WAIT'', Msg ''Poor timing. Wait for better conditions.'' [])
      else (''AVOID'', Msg ''Bad timing. Do not buy now.'' []))"

text \<open>The degenerate result of \<^verbatim>\<open>get_buy_score\<close> (lines 260-269).\<close>

definition insufficient_data_signal :: "string \<Rightarrow> string \<Rightarrow> int \<Rightarrow> trade_signal" where
  "insufficient_data_signal player_id player_name current_price =
     \<lparr>sig_player_id = player_id, sig_player_name = player_name,
      sig_signal_type = ''WAIT'', sig_score = 0,
      sig_reasons = [Msg ''Insufficient data'' []],
      sig_warnings = [Msg ''Need more price history'' []],
      sig_current_price = current_price,
      sig_recommendation = Msg ''Wait for more data before trading'' [],
      sig_velocity = None, sig_confidence = ''MEDIUM''\<rparr>"

text \<open>
  The body of \<^verbatim>\<open>get_buy_score\<close> from the composition of the score on (lines 271-428),
  given the results of \<^verbatim>\<open>calculate_velocity_v2\<close> and \<^verbatim>\<open>check_stabilization_v2\<close>:
  the signal and the database after the state write and the log write.
\<close>

definition buy_score_from ::
  "providers \<Rightarrow> string \<Rightarrow> database \<Rightarrow> string \<Rightarrow> player \<Rightarrow> int
     \<Rightarrow> velocity_analysis_v2 option \<Rightarrow> bool \<times> msg \<times> int \<Rightarrow> datetime
     \<Rightarrow> trade_signal \<times> database" where
  "buy_score_from prov platform db player_id player current_price velocity_opt stabilization_result now =
     (let market = buy_market_component (get_pulse prov);
          market_score = fst market;
          market_state = fst (snd market);
          timing = calculate_timing_score velocity_opt stabilization_result;
          timing_score = fst timing;
          posn = buy_position_component (get_longterm_daily_prices prov player) current_price;
          position_score = fst posn;
          bounce_penalty = fst (snd posn);
          reasons = fst (snd (snd market)) @ fst (snd timing) @ fst (snd (snd posn));
          warnings = snd (snd (snd market)) @ snd (snd timing) @ snd (snd (snd posn));
          raw_score = 40 + market_score + timing_score + (position_score + bounce_penalty);
          clamped = max 0 (min 100 raw_score);
          conf = (case velocity_opt of None \<Rightarrow> ''LOW'' | Some v \<Rightarrow> confidence v);
          raw_readiness = (case velocity_opt of None \<Rightarrow> ''WAIT'' | Some v \<Rightarrow> buy_readiness v);
          raw_state = (case velocity_opt of None \<Rightarrow> ''STABLE'' | Some v \<Rightarrow> state v);
          smoothed = apply_hysteresis db platform player_id raw_state raw_readiness
                       clamped current_price now;
          final_score = snd (snd smoothed);
          db1 = save_player_state db platform player_id (fst smoothed) (fst (snd smoothed))
                  final_score current_price now;
          st = buy_signal_type final_score current_price;
          db2 = log_signal db1 platform player_id ''BUY'' raw_score final_score
                  [(''base'', 40), (''market'', market_score), (''timing'', timing_score),
                   (''position'', position_score), (''bounce_penalty'', bounce_penalty)]
                  velocity_opt market_state (fst st) current_price now
      in (\<lparr>sig_player_id = player_id, sig_player_name = pl_name player,
            sig_signal_type = fst st, sig_score = final_score,
            sig_reasons = reasons, sig_warnings = warnings,
            sig_current_price = current_price,
            sig_recommendation = snd st,
            sig_velocity = velocity_opt, sig_confidence = conf\<rparr>, db2))"

definition get_buy_score ::
  "providers \<Rightarrow> string \<Rightarrow> database \<Rightarrow> string \<Rightarrow> datetime
     \<Rightarrow> py_error + (trade_signal option \<times> database)" where
  "get_buy_score prov platform db player_id now =
     (case players db player_id of
        None \<Rightarrow> Inr (None, db)
      | Some player \<Rightarrow>
          let latest = latest_price db player_id platform;
              history = price_history db player_id platform 7 200
          in case latest of
               None \<Rightarrow> Inr (Some (insufficient_data_signal player_id (pl_name player) 0), db)
             | Some latest_rec \<Rightarrow>
                 if length history < 2 then
                   Inr (Some (insufficient_data_signal player_id (pl_name player) (price latest_rec)), db)
                 else
                   bindE (calculate_velocity_v2 history (Some (price latest_rec)) now) (\<lambda>velocity_opt.
                   bindE (check_stabilization_v2 history 6 5 now) (\<lambda>stabilization_result.
                     case buy_score_from prov platform db player_id player (price latest_rec)
                            velocity_opt stabilization_result now of
                       (signal, db2) \<Rightarrow> Inr (Some signal, db2))))"

subsection \<open>The sell score\<close>

text \<open>The profit block of \<^verbatim>\<open>get_sell_score\<close>: \<open>(profit_score, reasons, warnings)\<close>.\<close>

definition sell_profit_pct :: "int \<Rightarrow> int \<Rightarrow> real" where
  "sell_profit_pct current_price buy_price =
     (let sell_after_tax = py_int (real_of_int current_price * 0.95);
          profit = sell_after_tax - buy_price
      in if buy_price \<noteq> 0 then real_of_int profit / real_of_int buy_price * 100 else 0)"

definition sell_profit_component :: "int \<Rightarrow> int \<Rightarrow> int \<times> msg list \<times> msg list" where
  "sell_profit_component current_price buy_price =
     (let profit = py_int (real_of_int current_price * 0.95) - buy_price;
          profit_pct = sell_profit_pct current_price buy_price
      in if profit_pct \<ge> 20 then
           (25, [Glyph ''check'' (Msg ''Excellent profit: {profit_pct:.1f}% ({profit:,} coins)''
                                   [profit_pct, real_of_int profit])], [])
         else if profit_pct \<ge> 10 then
           (15, [Glyph ''check'' (Msg ''Good profit: {profit_pct:.1f}% ({profit:,} coins)''
                                   [profit_pct, real_of_int profit])], [])
         else if profit_pct \<ge> 5 then
           (5, [Glyph ''check'' (Msg ''Modest profit: {profit_pct:.1f}% ({profit:,} coins)''
                                  [profit_pct, real_of_int profit])], [])
         else if profit_pct \<le> - 10 then
           (- 20, [], [Glyph ''cross'' (Msg ''Losing {abs(profit_pct):.1f}% - consider cutting loss or holding''
                                         [\<bar>profit_pct\<bar>])])
         else if profit_pct < 0 then
           (- 10, [], [Glyph ''warning'' (Msg ''Currently down {abs(profit_pct):.1f}%'' [\<bar>profit_pct\<bar>])])
         else (0, [], []))"

text \<open>\<^verbatim>\<open>v2_sell_map.get(velocity.state, (0, velocity.description, True))\<close>.\<close>

definition v2_sell_map :: "velocity_analysis_v2 \<Rightarrow> int \<times> msg \<times> bool" where
  "v2_sell_map v =
     (if state v = ''FREEFALL'' then (20, Glyph ''siren'' (Suffix (description v) '' - SELL NOW''), True)
      else if state v = ''FALLING'' then (12, Glyph ''warning'' (Suffix (description v) '' - sell before worse''), True)
      else if state v = ''DECELERATING'' then (8, Glyph ''warning'' (Suffix (description v) '' - still falling''), True)
      else if state v = ''STABLE'' then (5, Glyph ''dash'' (Suffix (description v) '' - fine to sell''), True)
      else if state v = ''BOTTOMING'' then (- 3, Glyph ''chart'' (Suffix (description v) '' - may be recovering''), False)
      else if state v = ''RISING'' then (- 5, Glyph ''chart'' (Suffix (description v) '' - price still going up''), False)
      else if state v = ''SURGING'' then (- 10, Glyph ''chart'' (Suffix (description v) '' - could wait for peak''), False)
      else if state v = ''CHOPPY'' then (0, Glyph ''arrows'' (Suffix (description v) '' - unpredictable''), True)
      else (0, description v, True))"

definition sell_velocity_component :: "velocity_analysis_v2 option \<Rightarrow> int \<times> msg list \<times> msg list" where
  "sell_velocity_component velocity_opt =
     (case velocity_opt of
        None \<Rightarrow> (0, [], [])
      | Some v \<Rightarrow>
          (case v2_sell_map v of (v_score, v_msg, is_reason) \<Rightarrow>
             if is_reason then (v_score, [v_msg], []) else (v_score, [], [v_msg])))"

text \<open>The market-pulse block of \<^verbatim>\<open>get_sell_score\<close> (\<^verbatim>\<open>except: pass\<close>).\<close>

definition sell_market_component :: "market_pulse option fetch \<Rightarrow> int \<times> string \<times> msg list \<times> msg list" where
  "sell_market_component pulse_fetch =
     (case pulse_fetch of
        Raises \<Rightarrow> (0, ''UNKNOWN'', [], [])
      | Returns None \<Rightarrow> (0, ''UNKNOWN'', [], [])
      | Returns (Some pulse) \<Rightarrow>
          if status pulse = ''CRASHING'' then
            (15, status pulse, [Glyph ''siren'' (Msg ''Market crashing - exit positions!'' [])], [])
          else if status pulse = ''INFLATED'' then
            (10, status pulse, [Glyph ''check'' (Msg ''Market inflated - good time to sell'' [])], [])
          else if status pulse = ''CRASHED'' then
            (- 15, status pulse, [], [Glyph ''warning'' (Msg ''Market at lows - bad time to sell'' [])])
          else (0, status pulse, [], []))"

text \<open>The historical-position block of \<^verbatim>\<open>get_sell_score\<close> (\<^verbatim>\<open>except: pass\<close>).\<close>

definition sell_position_component :: "longterm option fetch \<Rightarrow> int \<times> msg list \<times> msg list" where
  "sell_position_component longterm_fetch =
     (case longterm_fetch of
        Raises \<Rightarrow> (0, [], [])
      | Returns None \<Rightarrow> (0, [], [])
      | Returns (Some lt) \<Rightarrow>
          if lt_data_points lt \<ge> 30 then
            (let pos = lt_position_in_range lt
             in if pos \<ge> 80 then
                  (15, [Glyph ''check'' (Msg ''Near all-time high ({position:.0f}%)'' [pos])], [])
                else if pos \<ge> 60 then
                  (8, [Glyph ''check'' (Msg ''Upper range ({position:.0f}%)'' [pos])], [])
                else if pos \<le> 20 then
                  (- 15, [], [Glyph ''cross'' (Msg ''Near floor ({position:.0f}%) - terrible time to sell'' [pos])])
                else (0, [], []))
          else (0, [], []))"

definition sell_signal_type :: "int \<Rightarrow> int \<Rightarrow> real \<Rightarrow> string \<times> msg" where
  "sell_signal_type s current_price profit_pct =
     (if s \<ge> 75 then (''STRONG SELL'', Msg ''Take profit! Sell at {current_price:,} ({profit_pct:.1f}% profit)''
                                        [real_of_int current_price, profit_pct])
      else if s \<ge> 60 then (''SELL'', Msg ''Good time to sell at {current_price:,}'' [real_of_int current_price])
      else if s \<ge> 45 then (''HOLD'', Msg ''Could sell, timing not optimal'' [])
      else if s \<ge> 30 then (''WAIT'', Msg ''Wait for better exit'' [])
      else (''HOLD'', Msg ''Bad timing. Hold or cut losses.'' []))"

text \<open>
  The body of \<^verbatim>\<open>get_sell_score\<close> from the composition of the score on (lines 452-603),
  given the result of \<^verbatim>\<open>calculate_velocity_v2\<close>.
\<close>

definition sell_score_from ::
  "providers \<Rightarrow> string \<Rightarrow> database \<Rightarrow> string \<Rightarrow> player \<Rightarrow> int \<Rightarrow> int
     \<Rightarrow> velocity_analysis_v2 option \<Rightarrow> datetime \<Rightarrow> trade_signal \<times> database" where
  "sell_score_from prov platform db player_id player current_price buy_price velocity_opt now =
     (let profit_pct = sell_profit_pct current_price buy_price;
          prof = sell_profit_component current_price buy_price;
          profit_score = fst prof;
          vel = sell_velocity_component velocity_opt;
          velocity_score = fst vel;
          market = sell_market_component (get_pulse prov);
          market_score = fst market;
          market_state = fst (snd market);
          posn = sell_position_component (get_longterm_daily_prices prov player);
          position_score = fst posn;
          reasons = fst (snd prof) @ fst (snd vel) @ fst (snd (snd market)) @ fst (snd posn);
          warnings = snd (snd prof) @ snd (snd vel) @ snd (snd (snd market)) @ snd (snd posn);
          raw_score = 50 + profit_score + velocity_score + market_score + position_score;
          final_score = max 0 (min 100 raw_score);
          st = sell_signal_type final_score current_price profit_pct;
          db1 = log_signal db platform player_id ''SELL'' raw_score final_score
                  [(''base'', 50), (''profit'', profit_score), (''velocity'', velocity_score),
                   (''market'', market_score), (''position'', position_score)]
                  velocity_opt market_state (fst st) current_price now
      in (\<lparr>sig_player_id = player_id, sig_player_name = pl_name player,
            sig_signal_type = fst st, sig_score = final_score,
            sig_reasons = reasons, sig_warnings = warnings,
            sig_current_price = current_price,
            sig_recommendation = snd st,
            sig_velocity = velocity_opt, sig_confidence = ''MEDIUM''\<rparr>, db1))"

definition get_sell_score ::
  "providers \<Rightarrow> string \<Rightarrow> database \<Rightarrow> string \<Rightarrow> int \<Rightarrow> datetime
     \<Rightarrow> py_error + (trade_signal option \<times> database)" where
  "get_sell_score prov platform db player_id buy_price now =
     (case players db player_id of
        None \<Rightarrow> Inr (None, db)
      | Some player \<Rightarrow>
          let latest = latest_price db player_id platform;
              history = price_history db player_id platform 7 100
          in case latest of
               None \<Rightarrow> Inr (None, db)
             | Some latest_rec \<Rightarrow>
                 bindE (calculate_velocity_v2 history (Some (price latest_rec)) now) (\<lambda>velocity_opt.
                   case sell_score_from prov platform db player_id player (price latest_rec)
                          buy_price velocity_opt now of
                     (signal, db1) \<Rightarrow> Inr (Some signal, db1)))"

subsection \<open>Scanning\<close>

text \<open>
  The loop of \<^verbatim>\<open>scan_buy_opportunities\<close> over the active players, threading the database
  through the evaluations; \<^verbatim>\<open>refresh_longterm_cache\<close> only warms the providers' cache and
  is not part of the model. \<open>acc\<close> is the list \<^verbatim>\<open>opportunities\<close>.
\<close>

fun scan_buy_loop ::
  "providers \<Rightarrow> string \<Rightarrow> int \<Rightarrow> datetime \<Rightarrow> player list \<Rightarrow> database \<Rightarrow> trade_signal list
     \<Rightarrow> py_error + (trade_signal list \<times> database)" where
  "scan_buy_loop prov platform min_score now [] db acc = Inr (acc, db)"
| "scan_buy_loop prov platform min_score now (p # ps) db acc =
     bindE (get_buy_score prov platform db (pl_id p) now) (\<lambda>r.
       scan_buy_loop prov platform min_score now ps (snd r)
         (case fst r of
            None \<Rightarrow> acc
          | Some s \<Rightarrow> if sig_score s \<ge> min_score then acc @ [s] else acc))"

text \<open>\<^verbatim>\<open>xs.sort(key=lambda x: x.score, reverse=True)\<close>: a stable sort by falling score.\<close>

definition sort_by_score_desc :: "('a \<Rightarrow> int) \<Rightarrow> 'a list \<Rightarrow> 'a list" where
  "sort_by_score_desc score_of xs = sort_key (\<lambda>x. - score_of x) xs"

definition scan_buy_opportunities ::
  "providers \<Rightarrow> string \<Rightarrow> database \<Rightarrow> int \<Rightarrow> datetime
     \<Rightarrow> py_error + (trade_signal list \<times> database)" where
  "scan_buy_opportunities prov platform db min_score now =
     bindE (scan_buy_loop prov platform min_score now (active_players db) db []) (\<lambda>r.
       Inr (sort_by_score_desc sig_score (fst r), snd r))"

text \<open>
  A sell opportunity: the signal with the attributes \<^verbatim>\<open>position_id\<close>, \<^verbatim>\<open>buy_price\<close> and
  \<^verbatim>\<open>quantity\<close> that \<^verbatim>\<open>scan_sell_opportunities\<close> attaches to it.
\<close>

record sell_opportunity =
  opp_signal :: trade_signal
  opp_position_id :: "string option"
  opp_buy_price :: int
  opp_quantity :: int

fun scan_sell_loop ::
  "providers \<Rightarrow> string \<Rightarrow> int \<Rightarrow> datetime \<Rightarrow> position list \<Rightarrow> database \<Rightarrow> sell_opportunity list
     \<Rightarrow> py_error + (sell_opportunity list \<times> database)" where
  "scan_sell_loop prov platform min_score now [] db acc = Inr (acc, db)"
| "scan_sell_loop prov platform min_score now (pos # rest) db acc =
     bindE (get_sell_score prov platform db (pos_player_id pos) (pos_buy_price pos) now) (\<lambda>r.
       scan_sell_loop prov platform min_score now rest (snd r)
         (case fst r of
            None \<Rightarrow> acc
          | Some s \<Rightarrow>
              if sig_score s \<ge> min_score
              then acc @ [\<lparr>opp_signal = s, opp_position_id = pos_id pos,
                           opp_buy_price = pos_buy_price pos,
                           opp_quantity = get_or (pos_quantity pos) 1\<rparr>]
              else acc))"

definition scan_sell_opportunities ::
  "providers \<Rightarrow> string \<Rightarrow> database \<Rightarrow> position list \<Rightarrow> int \<Rightarrow> datetime
     \<Rightarrow> py_error + (sell_opportunity list \<times> database)" where
  "scan_sell_opportunities prov platform db positions min_score now =
     bindE (scan_sell_loop prov platform min_score now positions db []) (\<lambda>r.
       Inr (sort_by_score_desc (\<lambda>opp. sig_score (opp_signal opp)) (fst r), snd r))"

text \<open>
  The signals the scans evaluate, in evaluation order and before any threshold: every
  \<^verbatim>\<open>get_buy_score\<close> (\<^verbatim>\<open>get_sell_score\<close>) result that is not \<^verbatim>\<open>None\<close>, with the database
  the evaluations leave.
\<close>

fun evaluated_buy_signals ::
  "providers \<Rightarrow> string \<Rightarrow> datetime \<Rightarrow> player list \<Rightarrow> database
     \<Rightarrow> py_error + (trade_signal list \<times> database)" where
  "evaluated_buy_signals prov platform now [] db = Inr ([], db)"
| "evaluated_buy_signals prov platform now (p # ps) db =
     bindE (get_buy_score prov platform db (pl_id p) now) (\<lambda>r.
       bindE (evaluated_buy_signals prov platform now ps (snd r)) (\<lambda>rest.
         Inr (case fst r of None \<Rightarrow> fst rest | Some s \<Rightarrow> s # fst rest, snd rest)))"

fun evaluated_sell_signals ::
  "providers \<Rightarrow> string \<Rightarrow> datetime \<Rightarrow> position list \<Rightarrow> database
     \<Rightarrow> py_error + (sell_opportunity list \<times> database)" where
  "evaluated_sell_signals prov platform now [] db = Inr ([], db)"
| "evaluated_sell_signals prov platform now (pos # rest) db =
     bindE (get_sell_score prov platform db (pos_player_id pos) (pos_buy_price pos) now) (\<lambda>r.
       bindE (evaluated_sell_signals prov platform now rest (snd r)) (\<lambda>more.
         Inr (case fst r of
                None \<Rightarrow> fst more
              | Some s \<Rightarrow> \<lparr>opp_signal = s, opp_position_id = pos_id pos,
                            opp_buy_price = pos_buy_price pos,
                            opp_quantity = get_or (pos_quantity pos) 1\<rparr> # fst more, snd more)))"

text \<open>
  The freshly computed values that \<^verbatim>\<open>get_buy_score\<close> hands to the hysteresis step:
  \<^verbatim>\<open>raw_state\<close> and \<^verbatim>\<open>raw_readiness\<close> (lines 377-378) and the sum of the components
  before the clamp (lines 271-373).
\<close>

definition raw_state_of :: "velocity_analysis_v2 option \<Rightarrow> string" where
  "raw_state_of velocity_opt = (case velocity_opt of None \<Rightarrow> ''STABLE'' | Some v \<Rightarrow> state v)"

definition raw_readiness_of :: "velocity_analysis_v2 option \<Rightarrow> string" where
  "raw_readiness_of velocity_opt = (case velocity_opt of None \<Rightarrow> ''WAIT'' | Some v \<Rightarrow> buy_readiness v)"

definition buy_raw_score ::
  "providers \<Rightarrow> player \<Rightarrow> int \<Rightarrow> velocity_analysis_v2 option \<Rightarrow> bool \<times> msg \<times> int \<Rightarrow> int" where
  "buy_raw_score prov player current_price velocity_opt stabilization_result =
     40 + fst (buy_market_component (get_pulse prov))
        + fst (calculate_timing_score velocity_opt stabilization_result)
        + (fst (buy_position_component (get_longterm_daily_prices prov player) current_price)
           + fst (snd (buy_position_component (get_longterm_daily_prices prov player) current_price)))"

text \<open>The sum of the components of \<^verbatim>\<open>get_sell_score\<close> before the clamp (lines 452-561).\<close>

definition sell_raw_score ::
  "providers \<Rightarrow> player \<Rightarrow> int \<Rightarrow> int \<Rightarrow> velocity_analysis_v2 option \<Rightarrow> int" where
  "sell_raw_score prov player current_price buy_price velocity_opt =
     50 + fst (sell_profit_component current_price buy_price)
        + fst (sell_velocity_component velocity_opt)
        + fst (sell_market_component (get_pulse prov))
        + fst (sell_position_component (get_longterm_daily_prices prov player))"

section \<open>Reading results, and the invariant of the store\<close>

text \<open>The signal an entry point returns, if it returns one, and the database it leaves.\<close>

definition signal_of :: "py_error + (trade_signal option \<times> database) \<Rightarrow> trade_signal option" where
  "signal_of r = (case r of Inl e \<Rightarrow> None | Inr (sg, db2) \<Rightarrow> sg)"

definition database_of :: "py_error + ('a \<times> database) \<Rightarrow> database option" where
  "database_of r = (case r of Inl e \<Rightarrow> None | Inr (x, db2) \<Rightarrow> Some db2)"

text \<open>The analysis \<^verbatim>\<open>calculate_velocity_v2\<close> returns, if it returns one.\<close>

definition analysis_of :: "py_error + velocity_analysis_v2 option \<Rightarrow> velocity_analysis_v2 option" where
  "analysis_of r = (case r of Inl e \<Rightarrow> None | Inr a \<Rightarrow> a)"

text \<open>The entry of a window in the result of \<open>find_price_windows\<close>.\<close>

definition window_at :: "py_error + price_windows \<Rightarrow> int \<Rightarrow> (int \<times> real) option" where
  "window_at r t = (case r of Inl e \<Rightarrow> None | Inr w \<Rightarrow> w t)"

text \<open>The age of a sample lies in the window of a target: \<^verbatim>\<open>target * 0.5 <= age <= target * 1.5\<close>.\<close>

definition in_window :: "int \<Rightarrow> real \<Rightarrow> bool" where
  "in_window t age = (real_of_int t * 0.5 \<le> age \<and> age \<le> real_of_int t * 1.5)"

text \<open>The state stored for a player once an entry point has returned.\<close>

definition state_after :: "py_error + ('a \<times> database) \<Rightarrow> string \<Rightarrow> string \<Rightarrow> player_state option" where
  "state_after r player_id platform =
     (case database_of r of None \<Rightarrow> None | Some db2 \<Rightarrow> player_states db2 (player_id, platform))"

text \<open>Every score stored in \<^verbatim>\<open>player_states\<close> lies in \<open>[0, 100]\<close>.\<close>

definition scores_in_range :: "database \<Rightarrow> bool" where
  "scores_in_range db =
     (\<forall>k ps s. player_states db k = Some ps \<longrightarrow> ps_score ps = Some s \<longrightarrow> 0 \<le> s \<and> s \<le> 100)"

section \<open>Example data\<close>

text \<open>A sample of price \<open>pr\<close> recorded \<open>hours_ago\<close> hours before the instant 0.\<close>

definition sample :: "int \<Rightarrow> real \<Rightarrow> price_rec" where
  "sample pr hours_ago =
     \<lparr>price = pr, recorded_at = Some (Datetime (- (hours_ago * 3600))), timestamp = None\<rparr>"

definition ex_player :: "string \<Rightarrow> player" where
  "ex_player pid = \<lparr>pl_id = pid, pl_name = ''Saka'', pl_futbin_id = 1, pl_slug = None\<rparr>"

definition ex_prior :: "string \<Rightarrow> string \<Rightarrow> int \<Rightarrow> int \<Rightarrow> datetime \<Rightarrow> player_state" where
  "ex_prior s r sc p t =
     \<lparr>ps_state = Some s, ps_readiness = Some r, ps_score = Some sc, ps_price = Some p,
      ps_updated_at = Some t\<rparr>"

text \<open>
  A database with the players \<open>p1\<close> and \<open>p2\<close>, the price histories \<open>hist\<close> (newest first),
  and the stored state \<open>prior\<close> for \<open>p1\<close> on platform \<open>ps\<close>.
\<close>

definition ex_db :: "(string \<Rightarrow> price_rec list) \<Rightarrow> player_state option \<Rightarrow> database" where
  "ex_db hist prior =
     \<lparr>players = [''p1'' \<mapsto> ex_player ''p1'', ''p2'' \<mapsto> ex_player ''p2''],
      active_players = [ex_player ''p1'', ex_player ''p2''],
      latest_price = (\<lambda>pid plat. case hist pid of [] \<Rightarrow> None | p # ps \<Rightarrow> Some p),
      price_history = (\<lambda>pid plat days limit. hist pid),
      player_states = (\<lambda>k. if k = (''p1'', ''ps'') then prior else None),
      signal_log = [],
      find_fails = False, update_fails = False, log_fails = False\<rparr>"

definition ex_store :: "player_state \<Rightarrow> database" where
  "ex_store ps = ex_db (\<lambda>pid. []) (Some ps)"

text \<open>Six hourly samples, flat at 1000 with one dip to 990 four hours ago.\<close>

definition ex_history :: "price_rec list" where
  "ex_history = [sample 1000 0, sample 1000 1, sample 1000 2, sample 1000 3, sample 990 4, sample 1000 5]"

text \<open>Two samples only.\<close>

definition ex_short_history :: "price_rec list" where
  "ex_short_history = [sample 1000 0, sample 1000 1]"

text \<open>Three samples four to six hours old: no sample in the 1h and 2h windows.\<close>

definition ex_old_history :: "price_rec list" where
  "ex_old_history = [sample 1000 4, sample 1000 5, sample 1000 6]"

text \<open>What the velocity analysis and the stabilization check return on \<open>ex_history\<close>.\<close>

definition ex_velocity :: velocity_analysis_v2 where
  "ex_velocity =
     \<lparr>velocity_1h = 0, velocity_2h = 0, velocity_6h = 0, velocity_24h = 0,
      acceleration = 0, is_decelerating = False, deceleration_hours = 0,
      state = ''STABLE'', has_higher_lows = False, support_level = None,
      times_bounced_at_support = 0, hours_since_low = 4,
      days_in_trend = 1, confidence = ''LOW'', confidence_score = 35,
      data_points = 6, hours_of_data = 5,
      description = Msg ''Stable (+-{abs(v_1h):.1f}%/h)'' [0],
      buy_readiness = ''READY'',
      buy_readiness_reason = Msg ''Stable near recent low - good entry'' []\<rparr>"

definition ex_stabilization :: "bool \<times> msg \<times> int" where
  "ex_stabilization = (True, Msg ''Consolidating {stable_hours}h (higher lows)'' [6], 6)"

text \<open>
  Databases: no stored state and no samples; no stored state and \<open>ex_history\<close>; no stored
  state and two samples; a stored
  WAIT state of score 60, written three hours ago at price 990, and \<open>ex_history\<close>; and
  two samples for \<open>p1\<close> with \<open>ex_history\<close> for \<open>p2\<close>.
\<close>

definition ex_db_empty :: database where
  "ex_db_empty = ex_db (\<lambda>pid. []) None"

definition ex_db_fresh :: database where
  "ex_db_fresh = ex_db (\<lambda>pid. ex_history) None"

definition ex_db_short :: database where
  "ex_db_short = ex_db (\<lambda>pid. ex_short_history) None"

definition ex_db_waiting :: database where
  "ex_db_waiting = ex_db (\<lambda>pid. ex_history) (Some (ex_prior ''STABLE'' ''WAIT'' 60 990 (- 10800)))"

definition ex_db_two :: database where
  "ex_db_two = ex_db (\<lambda>pid. if pid = ''p1'' then ex_short_history else ex_history) None"

text \<open>
  Ten hourly samples, newest first, with two dips. In \<open>ex_rising_dips\<close> the earlier dip
  (six hours ago) is 900 and the later dip (two hours ago) is 950, more than 2% higher;
  in \<open>ex_falling_dips\<close> the earlier dip is 950 and the later one 900.
\<close>

definition ex_rising_dips :: "price_rec list" where
  "ex_rising_dips =
     [sample 1010 0, sample 1000 1, sample 950 2, sample 1000 3, sample 990 4,
      sample 980 5, sample 900 6, sample 980 7, sample 990 8, sample 1000 9]"

definition ex_falling_dips :: "price_rec list" where
  "ex_falling_dips =
     [sample 1010 0, sample 1000 1, sample 900 2, sample 1000 3, sample 990 4,
      sample 980 5, sample 950 6, sample 980 7, sample 990 8, sample 1000 9]"




text \<open>
  The two evaluations of a buy scan over \<open>ex_db_two\<close> with no provider data: \<open>p1\<close> first,
  then \<open>p2\<close> on the database the first evaluation leaves. And a held position in \<open>p1\<close>.
\<close>

definition ex_two_first :: "providers \<Rightarrow> trade_signal \<times> database" where
  "ex_two_first prov =
     buy_score_from prov ''ps'' ex_db_two ''p1'' (ex_player ''p1'') 1000
       None (False, Msg ''Insufficient data'' [], 0) 0"

definition ex_two_second :: "providers \<Rightarrow> trade_signal \<times> database" where
  "ex_two_second prov =
     buy_score_from prov ''ps'' (snd (ex_two_first prov)) ''p2'' (ex_player ''p2'') 1000
       (Some ex_velocity) ex_stabilization 0"

definition ex_position :: position where
  "ex_position = \<lparr>pos_player_id = ''p1'', pos_buy_price = 950, pos_id = None, pos_quantity = None\<rparr>"

text \<open>Providers that raise, and providers that return nothing.\<close>

definition providers_raising :: providers where
  "providers_raising = \<lparr>get_pulse = Raises, get_longterm_daily_prices = (\<lambda>p. Raises)\<rparr>"

definition providers_none :: providers where
  "providers_none = \<lparr>get_pulse = Returns None, get_longterm_daily_prices = (\<lambda>p. Returns None)\<rparr>"

section \<open>Properties of the hysteresis step\<close>

subsection \<open>Helper lemmas\<close>

lemma bindE_Inr: "bindE (Inr x) f = f x"
  by (simp add: bindE_def)

lemma bindE_Inl: "bindE (Inl e) f = Inl e"
  by (simp add: bindE_def)

lemma bindE_weak_cong: "m = m2 \<Longrightarrow> bindE m f = bindE m2 f"
  by simp

lemma get_player_state_ex_store:
  "get_player_state (ex_store ps) ''ps'' ''p1'' = Some ps"
  by (simp add: get_player_state_def ex_store_def ex_db_def)

lemma price_change_pct_gt:
  assumes "ps_price ps = Some p" and "real_of_int c > 0.97 * real_of_int p"
  shows "price_change_pct ps c > - 3"
proof (cases "p > 0")
  case True
  then have pos: "real_of_int p > 0" by simp
  have "- 3 * real_of_int p < real_of_int (c - p) * 100"
    using assms(2) by simp
  then have "- 3 < real_of_int (c - p) * 100 / real_of_int p"
    using pos by (simp add: pos_less_divide_eq)
  then have "real_of_int (c - p) / real_of_int p * 100 > - 3" by simp
  with True assms(1) show ?thesis
    by (simp add: price_change_pct_def get_or_def)
next
  case False
  with assms(1) show ?thesis
    by (simp add: price_change_pct_def get_or_def)
qed

text \<open>
  C1 (as amended). With a stored prior state whose readiness is READY, updated less than
  two hours ago, and a current price strictly above 0.97 times the stored price, the
  output readiness is READY. The output score is \<open>max (priorScore - 5) freshScore\<close> when
  the fresh readiness is not READY, and the fresh score when the fresh readiness is READY
  (that case goes through the ordinary comparison, at equal levels).
\<close>

theorem sticky_ready_amended:
  assumes "get_player_state st platform pid = Some ps"
    and "ps_readiness ps = Some ''READY''"
    and "ps_score ps = Some prior_score"
    and "ps_price ps = Some prior_price"
    and "ps_updated_at ps = Some t"
    and "(now - t) / 3600 < 2"
    and "real_of_int current_price > 0.97 * real_of_int prior_price"
  shows "fst (snd (apply_hysteresis st platform pid new_state new_readiness new_score current_price now)) = ''READY''
       \<and> snd (snd (apply_hysteresis st platform pid new_state new_readiness new_score current_price now))
           = (if new_readiness = ''READY'' then new_score else max (prior_score - 5) new_score)"
proof -
  have pc: "price_change_pct ps current_price > - 3"
    using assms(4,7) by (rule price_change_pct_gt)
  have hs: "hours_since_update ps now < 2"
    using assms(5,6) by (simp add: hours_since_update_def get_or_def)
  show ?thesis
    using assms(1,2,3) pc hs
    by (simp add: apply_hysteresis_def get_or_def Let_def)
qed

theorem sticky_ready_amended_witness:
  "fst (snd (apply_hysteresis (ex_store (ex_prior ''STABLE'' ''READY'' 80 1000 0)) ''ps'' ''p1''
        ''CHOPPY'' ''WAIT'' 40 980 3600)) = ''READY''
   \<and> snd (snd (apply_hysteresis (ex_store (ex_prior ''STABLE'' ''READY'' 80 1000 0)) ''ps'' ''p1''
        ''CHOPPY'' ''WAIT'' 40 980 3600)) = 75"
  using sticky_ready_amended [of "ex_store (ex_prior ''STABLE'' ''READY'' 80 1000 0)" "''ps''" "''p1''"
      "ex_prior ''STABLE'' ''READY'' 80 1000 0" 80 1000 0 3600 980 "''CHOPPY''" "''WAIT''" 40]
  by (simp add: get_player_state_ex_store ex_prior_def)

text \<open>
  C1 as stated fails when the fresh readiness is itself READY: prior READY with score 80
  at price 1000 one hour ago, fresh READY with score 60 at price 1000. The claim gives
  score \<open>max (80 - 5) 60 = 75\<close>; the code emits the fresh score 60.
\<close>

theorem sticky_ready_counterexample:
  "ps_readiness (ex_prior ''STABLE'' ''READY'' 80 1000 0) = Some ''READY''
   \<and> (3600 - 0) / 3600 < (2::real)
   \<and> real_of_int 1000 \<ge> 0.97 * real_of_int 1000
   \<and> apply_hysteresis (ex_store (ex_prior ''STABLE'' ''READY'' 80 1000 0)) ''ps'' ''p1''
        ''STABLE'' ''READY'' 60 1000 3600 = (''STABLE'', ''READY'', 60)
   \<and> (60::int) \<noteq> max (80 - 5) 60"
  by (simp add: apply_hysteresis_def get_player_state_ex_store ex_prior_def get_or_def
      hours_since_update_def price_change_pct_def readiness_levels_def)

lemma price_change_pct_le:
  assumes "ps_price ps = Some p" and "real_of_int c < 0.97 * real_of_int p" and "0 \<le> c"
  shows "\<not> price_change_pct ps c > - 3"
proof (cases "p > 0")
  case True
  then have pos: "real_of_int p > 0" by simp
  have "real_of_int (c - p) * 100 < - 3 * real_of_int p"
    using assms(2) by simp
  then have "real_of_int (c - p) * 100 / real_of_int p < - 3"
    using pos by (simp add: pos_divide_less_eq)
  then have "real_of_int (c - p) / real_of_int p * 100 < - 3" by simp
  with True assms(1) show ?thesis
    by (simp add: price_change_pct_def get_or_def)
next
  case False
  then have "0.97 * real_of_int p \<le> 0" by simp
  also have "0 \<le> real_of_int c" using assms(3) by simp
  finally show ?thesis using assms(2) by simp
qed

text \<open>The thresholds in terms of the levels the code assigns.\<close>

lemma hysteresis_by_levels:
  assumes "get_player_state st platform pid = Some ps"
    and "ps_state ps = Some prior_state"
    and "ps_readiness ps = Some prior_readiness"
    and "ps_score ps = Some prior_score"
    and "ps_price ps = Some prior_price"
    and "ps_updated_at ps = Some t"
    and "0 \<le> current_price"
    and "\<not> (prior_readiness = ''READY'' \<and> (now - t) / 3600 < 2
            \<and> real_of_int current_price \<ge> 0.97 * real_of_int prior_price)"
  shows "(readiness_levels new_readiness > readiness_levels prior_readiness \<longrightarrow>
            apply_hysteresis st platform pid new_state new_readiness new_score current_price now
              = (if new_score - prior_score \<ge> 10 then (new_state, new_readiness, new_score)
                 else (prior_state, prior_readiness, prior_score)))
       \<and> (readiness_levels new_readiness < readiness_levels prior_readiness \<longrightarrow>
            apply_hysteresis st platform pid new_state new_readiness new_score current_price now
              = (if new_score - prior_score \<le> - 15 then (new_state, new_readiness, new_score)
                 else (prior_state, prior_readiness, prior_score)))
       \<and> (readiness_levels new_readiness = readiness_levels prior_readiness \<longrightarrow>
            apply_hysteresis st platform pid new_state new_readiness new_score current_price now
              = (new_state, new_readiness, new_score))"
proof -
  have nosticky: "\<not> (prior_readiness = ''READY'' \<and> hours_since_update ps now < 2
                     \<and> price_change_pct ps current_price > - 3)"
  proof
    assume a: "prior_readiness = ''READY'' \<and> hours_since_update ps now < 2
                     \<and> price_change_pct ps current_price > - 3"
    then have "(now - t) / 3600 < 2"
      using assms(6) by (simp add: hours_since_update_def get_or_def)
    with a assms(8) have "real_of_int current_price < 0.97 * real_of_int prior_price"
      by auto
    from price_change_pct_le [OF assms(5) this assms(7)] a show False by simp
  qed
  show ?thesis
    using assms(1,2,3,4) nosticky
    by (auto simp add: apply_hysteresis_def get_or_def Let_def)
qed

lemma readiness_levels_spec_ordinal:
  "spec_ordinal r = Some n \<Longrightarrow> readiness_levels r = n"
  by (auto simp add: spec_ordinal_def readiness_levels_def split: if_splits)

text \<open>
  C2. With a stored prior state to which the sticky-READY rule does not apply (the prior
  readiness is not READY, or two hours or more have passed, or the current price is below
  0.97 times the stored price), on the ordinal scale
  AVOID = 0 < WAIT = 1 < ALMOST = 2 < READY = 3: an upgrade is accepted exactly when
  \<open>freshScore - priorScore \<ge> 10\<close>, a downgrade exactly when \<open>freshScore - priorScore \<le> -15\<close>,
  equal ordinals accept the fresh values, and a rejected evaluation re-emits the prior
  \<open>(state, readiness, score)\<close>.
\<close>

theorem hysteresis_thresholds:
  assumes "get_player_state st platform pid = Some ps"
    and "ps_state ps = Some prior_state"
    and "ps_readiness ps = Some prior_readiness"
    and "ps_score ps = Some prior_score"
    and "ps_price ps = Some prior_price"
    and "ps_updated_at ps = Some t"
    and "0 \<le> current_price"
    and "\<not> (prior_readiness = ''READY'' \<and> (now - t) / 3600 < 2
            \<and> real_of_int current_price \<ge> 0.97 * real_of_int prior_price)"
    and "spec_ordinal new_readiness = Some new_ordinal"
    and "spec_ordinal prior_readiness = Some prior_ordinal"
  shows "(new_ordinal > prior_ordinal \<longrightarrow>
            apply_hysteresis st platform pid new_state new_readiness new_score current_price now
              = (if new_score - prior_score \<ge> 10 then (new_state, new_readiness, new_score)
                 else (prior_state, prior_readiness, prior_score)))
       \<and> (new_ordinal < prior_ordinal \<longrightarrow>
            apply_hysteresis st platform pid new_state new_readiness new_score current_price now
              = (if new_score - prior_score \<le> - 15 then (new_state, new_readiness, new_score)
                 else (prior_state, prior_readiness, prior_score)))
       \<and> (new_ordinal = prior_ordinal \<longrightarrow>
            apply_hysteresis st platform pid new_state new_readiness new_score current_price now
              = (new_state, new_readiness, new_score))"
proof -
  have n: "readiness_levels new_readiness = new_ordinal"
    using assms(9) by (rule readiness_levels_spec_ordinal)
  have p: "readiness_levels prior_readiness = prior_ordinal"
    using assms(10) by (rule readiness_levels_spec_ordinal)
  from hysteresis_by_levels [OF assms(1-8), of new_readiness new_state new_score]
  show ?thesis unfolding n p .
qed

theorem hysteresis_thresholds_witness:
  "apply_hysteresis (ex_store (ex_prior ''STABLE'' ''WAIT'' 50 1000 0)) ''ps'' ''p1''
      ''STABLE'' ''ALMOST'' 55 1000 3600 = (''STABLE'', ''WAIT'', 50)
   \<and> apply_hysteresis (ex_store (ex_prior ''STABLE'' ''READY'' 80 1000 0)) ''ps'' ''p1''
      ''FALLING'' ''AVOID'' 75 1000 10800 = (''STABLE'', ''READY'', 80)
   \<and> apply_hysteresis (ex_store (ex_prior ''STABLE'' ''READY'' 80 1000 0)) ''ps'' ''p1''
      ''CHOPPY'' ''WAIT'' 70 1000 10800 = (''STABLE'', ''READY'', 80)
   \<and> apply_hysteresis (ex_store (ex_prior ''STABLE'' ''READY'' 80 1000 0)) ''ps'' ''p1''
      ''CHOPPY'' ''WAIT'' 58 1000 10800 = (''CHOPPY'', ''WAIT'', 58)
   \<and> apply_hysteresis (ex_store (ex_prior ''CHOPPY'' ''WAIT'' 50 1000 0)) ''ps'' ''p1''
      ''STABLE'' ''READY'' 60 1000 3600 = (''STABLE'', ''READY'', 60)
   \<and> apply_hysteresis (ex_store (ex_prior ''CHOPPY'' ''WAIT'' 50 1000 0)) ''ps'' ''p1''
      ''RISING'' ''WAIT'' 43 1000 3600 = (''RISING'', ''WAIT'', 43)"
  using hysteresis_thresholds [of "ex_store (ex_prior ''STABLE'' ''WAIT'' 50 1000 0)" "''ps''" "''p1''"
      "ex_prior ''STABLE'' ''WAIT'' 50 1000 0" "''STABLE''" "''WAIT''" 50 1000 0 1000 3600
      "''ALMOST''" 2 1 "''STABLE''" 55]
    hysteresis_thresholds [of "ex_store (ex_prior ''STABLE'' ''READY'' 80 1000 0)" "''ps''" "''p1''"
      "ex_prior ''STABLE'' ''READY'' 80 1000 0" "''STABLE''" "''READY''" 80 1000 0 1000 10800
      "''AVOID''" 0 3 "''FALLING''" 75]
    hysteresis_thresholds [of "ex_store (ex_prior ''STABLE'' ''READY'' 80 1000 0)" "''ps''" "''p1''"
      "ex_prior ''STABLE'' ''READY'' 80 1000 0" "''STABLE''" "''READY''" 80 1000 0 1000 10800
      "''WAIT''" 1 3 "''CHOPPY''" 70]
    hysteresis_thresholds [of "ex_store (ex_prior ''STABLE'' ''READY'' 80 1000 0)" "''ps''" "''p1''"
      "ex_prior ''STABLE'' ''READY'' 80 1000 0" "''STABLE''" "''READY''" 80 1000 0 1000 10800
      "''WAIT''" 1 3 "''CHOPPY''" 58]
    hysteresis_thresholds [of "ex_store (ex_prior ''CHOPPY'' ''WAIT'' 50 1000 0)" "''ps''" "''p1''"
      "ex_prior ''CHOPPY'' ''WAIT'' 50 1000 0" "''CHOPPY''" "''WAIT''" 50 1000 0 1000 3600
      "''READY''" 3 1 "''STABLE''" 60]
    hysteresis_thresholds [of "ex_store (ex_prior ''CHOPPY'' ''WAIT'' 50 1000 0)" "''ps''" "''p1''"
      "ex_prior ''CHOPPY'' ''WAIT'' 50 1000 0" "''CHOPPY''" "''WAIT''" 50 1000 0 1000 3600
      "''WAIT''" 1 1 "''RISING''" 43]
  by (simp add: get_player_state_ex_store ex_prior_def spec_ordinal_def)

section \<open>The scoring entry points\<close>

subsection \<open>What the entry points return\<close>

lemma player_states_log_signal:
  "player_states (log_signal db platform pid dir raw fin comps vopt ms st pr now) = player_states db"
  by (simp add: log_signal_def)

lemma player_states_save:
  "player_states (save_player_state db platform pid st rd sc pr now) =
     (if update_fails db then player_states db
      else (player_states db)((pid, platform) \<mapsto>
             \<lparr>ps_state = Some st, ps_readiness = Some rd, ps_score = Some sc,
              ps_price = Some pr, ps_updated_at = Some now\<rparr>))"
  by (simp add: save_player_state_def)

lemma buy_score_from_score:
  "sig_score (fst (buy_score_from prov platform db pid pl cp vopt stab now)) =
     snd (snd (apply_hysteresis db platform pid (raw_state_of vopt) (raw_readiness_of vopt)
                 (max 0 (min 100 (buy_raw_score prov pl cp vopt stab))) cp now))"
  by (simp add: buy_score_from_def Let_def raw_state_of_def raw_readiness_of_def buy_raw_score_def)

lemma buy_score_from_states:
  "player_states (snd (buy_score_from prov platform db pid pl cp vopt stab now)) =
     (let out = apply_hysteresis db platform pid (raw_state_of vopt) (raw_readiness_of vopt)
                 (max 0 (min 100 (buy_raw_score prov pl cp vopt stab))) cp now
      in if update_fails db then player_states db
         else (player_states db)((pid, platform) \<mapsto>
                \<lparr>ps_state = Some (fst out), ps_readiness = Some (fst (snd out)),
                 ps_score = Some (snd (snd out)), ps_price = Some cp, ps_updated_at = Some now\<rparr>))"
  by (simp add: buy_score_from_def Let_def raw_state_of_def raw_readiness_of_def buy_raw_score_def
      player_states_log_signal player_states_save)


lemma buy_score_from_velocity:
  "sig_velocity (fst (buy_score_from prov platform db pid pl cp vopt stab now)) = vopt"
  by (simp add: buy_score_from_def Let_def)

lemma sell_score_from_score:
  "sig_score (fst (sell_score_from prov platform db pid pl cp bp vopt now)) =
     max 0 (min 100 (sell_raw_score prov pl cp bp vopt))"
  by (simp add: sell_score_from_def Let_def sell_raw_score_def)

lemma sell_score_from_states:
  "player_states (snd (sell_score_from prov platform db pid pl cp bp vopt now)) = player_states db"
  by (simp add: sell_score_from_def Let_def player_states_log_signal)


lemma sell_score_from_velocity:
  "sig_velocity (fst (sell_score_from prov platform db pid pl cp bp vopt now)) = vopt"
  by (simp add: sell_score_from_def Let_def)

lemma get_buy_score_scored:
  assumes "players db pid = Some pl" and "latest_price db pid platform = Some lp"
    and "\<not> length (price_history db pid platform 7 200) < 2"
    and "calculate_velocity_v2 (price_history db pid platform 7 200) (Some (price lp)) now = Inr vopt"
    and "check_stabilization_v2 (price_history db pid platform 7 200) 6 5 now = Inr stab"
  shows "get_buy_score prov platform db pid now =
           Inr (Some (fst (buy_score_from prov platform db pid pl (price lp) vopt stab now)),
                snd (buy_score_from prov platform db pid pl (price lp) vopt stab now))"
  using assms by (simp add: get_buy_score_def Let_def bindE_Inr split: prod.split)

lemma get_sell_score_scored:
  assumes "players db pid = Some pl" and "latest_price db pid platform = Some lp"
    and "calculate_velocity_v2 (price_history db pid platform 7 100) (Some (price lp)) now = Inr vopt"
  shows "get_sell_score prov platform db pid bp now =
           Inr (Some (fst (sell_score_from prov platform db pid pl (price lp) bp vopt now)),
                snd (sell_score_from prov platform db pid pl (price lp) bp vopt now))"
  using assms by (simp add: get_sell_score_def Let_def bindE_Inr split: prod.split)

text \<open>Every way \<^verbatim>\<open>get_buy_score\<close> and \<^verbatim>\<open>get_sell_score\<close> can return.\<close>

lemma get_buy_score_returns:
  assumes r: "get_buy_score prov platform db pid now = Inr (sg, db2)"
  obtains (absent) "sg = None" and "db2 = db"
    | (insufficient) pl cp where "players db pid = Some pl"
        and "latest_price db pid platform = None \<or> length (price_history db pid platform 7 200) < 2"
        and "sg = Some (insufficient_data_signal pid (pl_name pl) cp)" and "db2 = db"
    | (scored) pl lp vopt stab where "players db pid = Some pl"
        and "latest_price db pid platform = Some lp"
        and "\<not> length (price_history db pid platform 7 200) < 2"
        and "calculate_velocity_v2 (price_history db pid platform 7 200) (Some (price lp)) now = Inr vopt"
        and "check_stabilization_v2 (price_history db pid platform 7 200) 6 5 now = Inr stab"
        and "sg = Some (fst (buy_score_from prov platform db pid pl (price lp) vopt stab now))"
        and "db2 = snd (buy_score_from prov platform db pid pl (price lp) vopt stab now)"
proof (cases "players db pid")
  case None
  with r have "sg = None" and "db2 = db" by (simp_all add: get_buy_score_def)
  then show ?thesis by (rule absent)
next
  case (Some pl)
  note pl = this
  show ?thesis
  proof (cases "latest_price db pid platform")
    case None
    with pl r have "sg = Some (insufficient_data_signal pid (pl_name pl) 0)" and "db2 = db"
      by (simp_all add: get_buy_score_def)
    with pl None show ?thesis by (intro insufficient [of pl 0]) simp_all
  next
    case (Some lp)
    note lp = this
    show ?thesis
    proof (cases "length (price_history db pid platform 7 200) < 2")
      case True
      with pl lp r have "sg = Some (insufficient_data_signal pid (pl_name pl) (price lp))" and "db2 = db"
        by (simp_all add: get_buy_score_def)
      with pl True show ?thesis by (intro insufficient [of pl "price lp"]) simp_all
    next
      case False
      note len = this
      show ?thesis
      proof (cases "calculate_velocity_v2 (price_history db pid platform 7 200) (Some (price lp)) now")
        case (Inl e)
        with pl lp len r show ?thesis by (simp add: get_buy_score_def bindE_Inl)
      next
        case (Inr vopt)
        note v = this
        show ?thesis
        proof (cases "check_stabilization_v2 (price_history db pid platform 7 200) 6 5 now")
          case (Inl e)
          with pl lp len v r show ?thesis by (simp add: get_buy_score_def bindE_Inl bindE_Inr)
        next
          case (Inr stab)
          from get_buy_score_scored [OF pl lp len v Inr, of prov] r
          have "sg = Some (fst (buy_score_from prov platform db pid pl (price lp) vopt stab now))"
            and "db2 = snd (buy_score_from prov platform db pid pl (price lp) vopt stab now)"
            by simp_all
          with pl lp len v Inr show ?thesis by (intro scored [of pl lp vopt stab]) simp_all
        qed
      qed
    qed
  qed
qed

lemma get_sell_score_returns:
  assumes r: "get_sell_score prov platform db pid bp now = Inr (sg, db2)"
  obtains (absent) "sg = None" and "db2 = db"
    | (scored) pl lp vopt where "players db pid = Some pl"
        and "latest_price db pid platform = Some lp"
        and "calculate_velocity_v2 (price_history db pid platform 7 100) (Some (price lp)) now = Inr vopt"
        and "sg = Some (fst (sell_score_from prov platform db pid pl (price lp) bp vopt now))"
        and "db2 = snd (sell_score_from prov platform db pid pl (price lp) bp vopt now)"
proof (cases "players db pid")
  case None
  with r have "sg = None" and "db2 = db" by (simp_all add: get_sell_score_def)
  then show ?thesis by (rule absent)
next
  case (Some pl)
  note pl = this
  show ?thesis
  proof (cases "latest_price db pid platform")
    case None
    with pl r have "sg = None" and "db2 = db" by (simp_all add: get_sell_score_def)
    then show ?thesis by (rule absent)
  next
    case (Some lp)
    note lp = this
    show ?thesis
    proof (cases "calculate_velocity_v2 (price_history db pid platform 7 100) (Some (price lp)) now")
      case (Inl e)
      with pl lp r show ?thesis by (simp add: get_sell_score_def bindE_Inl)
    next
      case (Inr vopt)
      from get_sell_score_scored [OF pl lp Inr, of prov bp] r
      have "sg = Some (fst (sell_score_from prov platform db pid pl (price lp) bp vopt now))"
        and "db2 = snd (sell_score_from prov platform db pid pl (price lp) bp vopt now)"
        by simp_all
      with pl lp Inr show ?thesis by (intro scored [of pl lp vopt]) simp_all
    qed
  qed
qed

subsection \<open>Evaluating the examples\<close>

lemmas eval_defs = sample_def choose_ts_field_def get_timestamp_def field_value_def age_hours_def
  bindE_Inr bindE_Inl target_hours_def calc_velocity_def py_or_def acceleration_of_def
  deceleration_of_def first_min_rec_def calculate_trend_days_def day_key_def daily_avgs_def
  average_def detect_higher_lows_def find_support_levels_def max_list_def
  calculate_confidence_def classify_momentum_def py_round_def py_int_def Let_def

lemma upto_1_6: "[1..6] = [1, 2, 3, 4, 5, 6::int]"
  by (simp add: upto.simps)

lemma ex_history_velocity:
  "calculate_velocity_v2 ex_history (Some 1000) 0 = Inr (Some ex_velocity)"
  by (simp add: calculate_velocity_v2_def ex_history_def ex_velocity_def eval_defs cong: bindE_weak_cong)

lemma ex_history_stabilization:
  "check_stabilization_v2 ex_history 6 5 0 = Inr ex_stabilization"
  by (simp add: check_stabilization_v2_def ex_history_def ex_stabilization_def eval_defs upto_1_6
      cong: bindE_weak_cong)

lemma short_velocity:
  "length prices < 3 \<Longrightarrow> calculate_velocity_v2 prices cp now = Inr None"
  by (cases prices) (simp_all add: calculate_velocity_v2_def)

lemma short_stabilization:
  "length prices < 5 \<Longrightarrow>
     check_stabilization_v2 prices mh mv now = Inr (False, Msg ''Insufficient data'' [], 0)"
  by (cases prices) (simp_all add: check_stabilization_v2_def)

lemma ex_timing_score:
  "calculate_timing_score (Some ex_velocity) ex_stabilization =
     (27, [Glyph ''check'' (Msg ''Stable (+-{abs(v_1h):.1f}%/h)'' [0]),
           Glyph ''check'' (Msg ''Stable near recent low - good entry'' []),
           Glyph ''check'' (Msg ''Stable for {stable_hours:.0f}h (confirmed)'' [6])], [])"
  by (simp add: calculate_timing_score_def ex_velocity_def ex_stabilization_def Let_def)

lemma no_velocity_timing_score:
  "calculate_timing_score None stab = (0, [], [Glyph ''warning'' (Msg ''No velocity data'' [])])"
  by (simp add: calculate_timing_score_def split: prod.split)

lemma providers_none_components:
  "buy_market_component (get_pulse providers_none) = (0, ''UNKNOWN'', [], [])"
  "buy_position_component (get_longterm_daily_prices providers_none pl) cp = (0, 0, [], [])"
  "sell_market_component (get_pulse providers_none) = (0, ''UNKNOWN'', [], [])"
  "sell_position_component (get_longterm_daily_prices providers_none pl) = (0, [], [])"
  by (simp_all add: providers_none_def buy_market_component_def buy_position_component_def
      sell_market_component_def sell_position_component_def)

lemma providers_raising_components:
  "buy_market_component (get_pulse providers_raising) = (0, ''UNKNOWN'', [], [])"
  "buy_position_component (get_longterm_daily_prices providers_raising pl) cp =
     (0, 0, [], [Glyph ''warning'' (Msg ''No historical range data'' [])])"
  "sell_market_component (get_pulse providers_raising) = (0, ''UNKNOWN'', [], [])"
  "sell_position_component (get_longterm_daily_prices providers_raising pl) = (0, [], [])"
  by (simp_all add: providers_raising_def buy_market_component_def buy_position_component_def
      sell_market_component_def sell_position_component_def)

lemma ex_db_reads:
  "players (ex_db hist prior) ''p1'' = Some (ex_player ''p1'')"
  "players (ex_db hist prior) ''p2'' = Some (ex_player ''p2'')"
  "price_history (ex_db hist prior) pid plat days limit = hist pid"
  "latest_price (ex_db hist prior) pid plat = (case hist pid of [] \<Rightarrow> None | p # ps \<Rightarrow> Some p)"
  "player_states (ex_db hist prior) k = (if k = (''p1'', ''ps'') then prior else None)"
  "find_fails (ex_db hist prior) = False"
  "update_fails (ex_db hist prior) = False"
  "log_fails (ex_db hist prior) = False"
  by (simp_all add: ex_db_def)

lemma ex_raw_score_fresh:
  "buy_raw_score providers_none pl 1000 (Some ex_velocity) ex_stabilization = 67"
  by (simp add: buy_raw_score_def providers_none_components ex_timing_score)

lemma ex_raw_score_short:
  "buy_raw_score providers_none pl 1000 None stab = 40"
  by (simp add: buy_raw_score_def providers_none_components no_velocity_timing_score)

lemma ex_sell_profit:
  "sell_profit_component 1000 950 = (0, [], [])"
  by (simp add: sell_profit_component_def sell_profit_pct_def py_int_def Let_def)

subsection \<open>The range of the emitted score\<close>

lemma apply_hysteresis_score_range:
  assumes "scores_in_range db" and "0 \<le> c" and "c \<le> 100"
  shows "0 \<le> snd (snd (apply_hysteresis db platform pid st rd c cp now))
       \<and> snd (snd (apply_hysteresis db platform pid st rd c cp now)) \<le> 100"
proof (cases "get_player_state db platform pid")
  case None
  with assms show ?thesis by (simp add: apply_hysteresis_def)
next
  case (Some ps)
  then have stored: "player_states db (pid, platform) = Some ps"
    by (simp add: get_player_state_def split: if_splits)
  have "0 \<le> get_or (ps_score ps) 50 \<and> get_or (ps_score ps) 50 \<le> 100"
  proof (cases "ps_score ps")
    case None
    then show ?thesis by (simp add: get_or_def)
  next
    case (Some s)
    with stored assms(1) show ?thesis by (auto simp add: scores_in_range_def get_or_def)
  qed
  with Some assms(2,3) show ?thesis
    by (auto simp add: apply_hysteresis_def Let_def)
qed

lemma scores_in_range_save:
  assumes "scores_in_range db" and "0 \<le> sc" and "sc \<le> 100"
  shows "scores_in_range (save_player_state db platform pid st rd sc pr now)"
  using assms by (auto simp add: scores_in_range_def save_player_state_def)

lemma scores_in_range_states:
  "player_states db2 = player_states db \<Longrightarrow> scores_in_range db2 = scores_in_range db"
  by (simp add: scores_in_range_def)

lemma buy_score_from_range:
  assumes "scores_in_range db"
  shows "0 \<le> sig_score (fst (buy_score_from prov platform db pid pl cp vopt stab now))
       \<and> sig_score (fst (buy_score_from prov platform db pid pl cp vopt stab now)) \<le> 100
       \<and> scores_in_range (snd (buy_score_from prov platform db pid pl cp vopt stab now))"
proof -
  let ?c = "max 0 (min 100 (buy_raw_score prov pl cp vopt stab))"
  let ?out = "apply_hysteresis db platform pid (raw_state_of vopt) (raw_readiness_of vopt) ?c cp now"
  have c: "0 \<le> ?c" "?c \<le> 100" by simp_all
  have r: "0 \<le> snd (snd ?out) \<and> snd (snd ?out) \<le> 100"
    using apply_hysteresis_score_range [OF assms c] .
  have sv: "scores_in_range (save_player_state db platform pid (fst ?out) (fst (snd ?out)) (snd (snd ?out)) cp now)"
    using scores_in_range_save [OF assms] r by simp
  have eq: "player_states (snd (buy_score_from prov platform db pid pl cp vopt stab now))
      = player_states (save_player_state db platform pid (fst ?out) (fst (snd ?out)) (snd (snd ?out)) cp now)"
    by (simp add: buy_score_from_states Let_def player_states_save)
  have "scores_in_range (snd (buy_score_from prov platform db pid pl cp vopt stab now))"
    using sv scores_in_range_states [OF eq] by simp
  with r show ?thesis by (simp add: buy_score_from_score)
qed

lemma signal_of_Some:
  "signal_of r = Some s \<Longrightarrow> \<exists>db2. r = Inr (Some s, db2)"
  by (auto simp add: signal_of_def split: sum.splits)

lemma database_of_Some:
  "database_of r = Some db2 \<Longrightarrow> \<exists>x. r = Inr (x, db2)"
  by (auto simp add: database_of_def split: sum.splits)

text \<open>
  C5. When every score already stored in \<^verbatim>\<open>player_states\<close> lies in \<open>[0, 100]\<close> (as every
  score this engine stores does), the score of the signal that \<^verbatim>\<open>get_buy_score\<close> emits,
  after hysteresis, and the score of the signal that \<^verbatim>\<open>get_sell_score\<close> emits are integers
  in \<open>[0, 100]\<close>; and the store is left with all its scores in \<open>[0, 100]\<close> again.
\<close>

theorem emitted_score_in_range:
  assumes inv: "scores_in_range db"
  shows "(\<forall>s. signal_of (get_buy_score prov platform db pid now) = Some s
              \<longrightarrow> 0 \<le> sig_score s \<and> sig_score s \<le> 100)
       \<and> (\<forall>db2. database_of (get_buy_score prov platform db pid now) = Some db2
              \<longrightarrow> scores_in_range db2)
       \<and> (\<forall>s. signal_of (get_sell_score prov platform db pid buy_price now) = Some s
              \<longrightarrow> 0 \<le> sig_score s \<and> sig_score s \<le> 100)
       \<and> (\<forall>db2. database_of (get_sell_score prov platform db pid buy_price now) = Some db2
              \<longrightarrow> scores_in_range db2)"
proof (intro conjI allI impI)
  fix s assume "signal_of (get_buy_score prov platform db pid now) = Some s"
  then obtain db2 where r: "get_buy_score prov platform db pid now = Inr (Some s, db2)"
    using signal_of_Some by blast
  from r have "0 \<le> sig_score s \<and> sig_score s \<le> 100"
  proof (cases rule: get_buy_score_returns)
    case absent
    then show ?thesis by simp
  next
    case (insufficient pl cp)
    then show ?thesis by (simp add: insufficient_data_signal_def)
  next
    case (scored pl lp vopt stab)
    with buy_score_from_range [OF inv, of prov platform pid pl "price lp" vopt stab now]
    show ?thesis by simp
  qed
  then show "0 \<le> sig_score s" and "sig_score s \<le> 100" by simp_all
next
  fix db2 assume "database_of (get_buy_score prov platform db pid now) = Some db2"
  then obtain sg where r: "get_buy_score prov platform db pid now = Inr (sg, db2)"
    using database_of_Some by blast
  from r show "scores_in_range db2"
  proof (cases rule: get_buy_score_returns)
    case absent
    with inv show ?thesis by simp
  next
    case (insufficient pl cp)
    with inv show ?thesis by simp
  next
    case (scored pl lp vopt stab)
    with buy_score_from_range [OF inv, of prov platform pid pl "price lp" vopt stab now]
    show ?thesis by simp
  qed
next
  fix s assume "signal_of (get_sell_score prov platform db pid buy_price now) = Some s"
  then obtain db2 where r: "get_sell_score prov platform db pid buy_price now = Inr (Some s, db2)"
    using signal_of_Some by blast
  from r have "0 \<le> sig_score s \<and> sig_score s \<le> 100"
  proof (cases rule: get_sell_score_returns)
    case absent
    then show ?thesis by simp
  next
    case (scored pl lp vopt)
    then show ?thesis by (simp add: sell_score_from_score)
  qed
  then show "0 \<le> sig_score s" and "sig_score s \<le> 100" by simp_all
next
  fix db2 assume "database_of (get_sell_score prov platform db pid buy_price now) = Some db2"
  then obtain sg where r: "get_sell_score prov platform db pid buy_price now = Inr (sg, db2)"
    using database_of_Some by blast
  from r show "scores_in_range db2"
  proof (cases rule: get_sell_score_returns)
    case absent
    with inv show ?thesis by simp
  next
    case (scored pl lp vopt)
    with inv show ?thesis
      by (simp add: scores_in_range_states [OF sell_score_from_states])
  qed
qed

subsection \<open>The entry points on the examples\<close>

lemma ex_db_reads_fresh:
  "players ex_db_fresh ''p1'' = Some (ex_player ''p1'')"
  "latest_price ex_db_fresh ''p1'' ''ps'' = Some (sample 1000 0)"
  "price_history ex_db_fresh ''p1'' ''ps'' days limit = ex_history"
  by (simp_all add: ex_db_fresh_def ex_db_reads ex_history_def)

lemma ex_db_reads_waiting:
  "players ex_db_waiting ''p1'' = Some (ex_player ''p1'')"
  "latest_price ex_db_waiting ''p1'' ''ps'' = Some (sample 1000 0)"
  "price_history ex_db_waiting ''p1'' ''ps'' days limit = ex_history"
  "get_player_state ex_db_waiting ''ps'' ''p1'' = Some (ex_prior ''STABLE'' ''WAIT'' 60 990 (- 10800))"
  "player_states ex_db_waiting (''p1'', ''ps'') = Some (ex_prior ''STABLE'' ''WAIT'' 60 990 (- 10800))"
  "update_fails ex_db_waiting = False"
  by (simp_all add: ex_db_waiting_def ex_db_reads ex_history_def get_player_state_def)

lemma ex_db_reads_short:
  "players ex_db_short ''p1'' = Some (ex_player ''p1'')"
  "latest_price ex_db_short ''p1'' ''ps'' = Some (sample 1000 0)"
  "price_history ex_db_short ''p1'' ''ps'' days limit = ex_short_history"
  "get_player_state ex_db_short ''ps'' ''p1'' = None"
  by (simp_all add: ex_db_short_def ex_db_reads ex_short_history_def get_player_state_def)

lemma ex_lengths:
  "length ex_history = 6" "length ex_short_history = 2"
  by (simp_all add: ex_history_def ex_short_history_def)

lemma price_sample: "price (sample pr h) = pr"
  by (simp add: sample_def)

lemma ex_waiting_hysteresis:
  "apply_hysteresis ex_db_waiting ''ps'' ''p1'' ''STABLE'' ''READY'' 67 1000 0 = (''STABLE'', ''WAIT'', 60)"
  by (simp add: apply_hysteresis_def ex_db_reads_waiting ex_prior_def get_or_def
      hours_since_update_def price_change_pct_def readiness_levels_def)

lemma ex_waiting_buy:
  "get_buy_score providers_none ''ps'' ex_db_waiting ''p1'' 0 =
     Inr (Some (fst (buy_score_from providers_none ''ps'' ex_db_waiting ''p1'' (ex_player ''p1'') 1000
                       (Some ex_velocity) ex_stabilization 0)),
          snd (buy_score_from providers_none ''ps'' ex_db_waiting ''p1'' (ex_player ''p1'') 1000
                 (Some ex_velocity) ex_stabilization 0))"
  using get_buy_score_scored [of ex_db_waiting "''p1''" "ex_player ''p1''" "''ps''" "sample 1000 0" 0
      "Some ex_velocity" ex_stabilization providers_none]
  by (simp add: ex_db_reads_waiting price_sample ex_history_velocity ex_history_stabilization ex_lengths)

lemma ex_short_buy:
  "get_buy_score providers_none ''ps'' ex_db_short ''p1'' 0 =
     Inr (Some (fst (buy_score_from providers_none ''ps'' ex_db_short ''p1'' (ex_player ''p1'') 1000
                       None (False, Msg ''Insufficient data'' [], 0) 0)),
          snd (buy_score_from providers_none ''ps'' ex_db_short ''p1'' (ex_player ''p1'') 1000
                 None (False, Msg ''Insufficient data'' [], 0) 0))"
  using get_buy_score_scored [of ex_db_short "''p1''" "ex_player ''p1''" "''ps''" "sample 1000 0" 0
      None "(False, Msg ''Insufficient data'' [], 0)" providers_none]
  by (simp add: ex_db_reads_short price_sample short_velocity short_stabilization ex_lengths)

lemma ex_short_sell:
  "get_sell_score prov ''ps'' ex_db_short ''p1'' bp 0 =
     Inr (Some (fst (sell_score_from prov ''ps'' ex_db_short ''p1'' (ex_player ''p1'') 1000 bp None 0)),
          snd (sell_score_from prov ''ps'' ex_db_short ''p1'' (ex_player ''p1'') 1000 bp None 0))"
  using get_sell_score_scored [of ex_db_short "''p1''" "ex_player ''p1''" "''ps''" "sample 1000 0" 0
      None prov bp]
  by (simp add: ex_db_reads_short price_sample short_velocity ex_lengths)


lemma ex_fresh_sell:
  "get_sell_score prov ''ps'' ex_db_fresh ''p1'' bp 0 =
     Inr (Some (fst (sell_score_from prov ''ps'' ex_db_fresh ''p1'' (ex_player ''p1'') 1000 bp (Some ex_velocity) 0)),
          snd (sell_score_from prov ''ps'' ex_db_fresh ''p1'' (ex_player ''p1'') 1000 bp (Some ex_velocity) 0))"
  using get_sell_score_scored [of ex_db_fresh "''p1''" "ex_player ''p1''" "''ps''" "sample 1000 0" 0
      "Some ex_velocity" prov bp]
  by (simp add: ex_db_reads_fresh price_sample ex_history_velocity ex_lengths)

lemma ex_raw_values:
  "raw_state_of (Some ex_velocity) = ''STABLE''"
  "raw_readiness_of (Some ex_velocity) = ''READY''"
  "raw_state_of None = ''STABLE''"
  "raw_readiness_of None = ''WAIT''"
  by (simp_all add: raw_state_of_def raw_readiness_of_def ex_velocity_def)

lemma signal_of_Inr: "signal_of (Inr (sg, d)) = sg"
  by (simp add: signal_of_def)

lemma database_of_Inr: "database_of (Inr (x, d)) = Some d"
  by (simp add: database_of_def)

lemma state_after_Inr: "state_after (Inr (x, d)) pid platform = player_states d (pid, platform)"
  by (simp add: state_after_def database_of_def)

lemma ex_waiting_score:
  "map_option sig_score (signal_of (get_buy_score providers_none ''ps'' ex_db_waiting ''p1'' 0)) = Some 60"
  by (simp add: ex_waiting_buy signal_of_Inr buy_score_from_score ex_raw_values ex_raw_score_fresh
      ex_waiting_hysteresis)

lemma ex_waiting_state_after:
  "state_after (get_buy_score providers_none ''ps'' ex_db_waiting ''p1'' 0) ''p1'' ''ps''
     = Some (ex_prior ''STABLE'' ''WAIT'' 60 1000 0)"
  by (simp add: ex_waiting_buy state_after_Inr buy_score_from_states ex_raw_values ex_raw_score_fresh
      ex_waiting_hysteresis ex_db_reads_waiting ex_prior_def)

lemma scores_in_range_ex_db_waiting: "scores_in_range ex_db_waiting"
  by (simp add: scores_in_range_def ex_db_waiting_def ex_db_reads ex_prior_def)

theorem emitted_score_in_range_witness:
  "scores_in_range ex_db_waiting
   \<and> map_option sig_score (signal_of (get_buy_score providers_none ''ps'' ex_db_waiting ''p1'' 0)) = Some 60
   \<and> (0::int) \<le> 60 \<and> (60::int) \<le> 100
   \<and> state_after (get_buy_score providers_none ''ps'' ex_db_waiting ''p1'' 0) ''p1'' ''ps''
        = Some (ex_prior ''STABLE'' ''WAIT'' 60 1000 0)"
  using emitted_score_in_range [OF scores_in_range_ex_db_waiting, of providers_none "''ps''" "''p1''" 0 950]
  by (simp add: ex_waiting_score ex_waiting_state_after scores_in_range_ex_db_waiting)

subsection \<open>When the stored state is written\<close>

text \<open>
  C3 (as amended). An evaluation by \<^verbatim>\<open>get_buy_score\<close> that returns the insufficient-data
  result leaves the database as it was. Every evaluation that gets past that check,
  whether it is the first one, accepted or rejected by the hysteresis rules, overwrites
  the stored state (when the write does not fail) with the state, readiness and score that
  the hysteresis step puts out, the current price and the current time; on a rejected
  evaluation the three values put out are the prior ones, and the price and the time are
  replaced all the same. \<^verbatim>\<open>get_sell_score\<close> never writes the stored state.
\<close>

theorem stored_state_after_buy:
  assumes pl: "players db pid = Some pl"
  shows "(latest_price db pid platform = None \<or> length (price_history db pid platform 7 200) < 2
            \<longrightarrow> database_of (get_buy_score prov platform db pid now) = Some db)
       \<and> (latest_price db pid platform = Some lp
            \<and> \<not> length (price_history db pid platform 7 200) < 2
            \<and> calculate_velocity_v2 (price_history db pid platform 7 200) (Some (price lp)) now = Inr vopt
            \<and> check_stabilization_v2 (price_history db pid platform 7 200) 6 5 now = Inr stab
            \<and> \<not> update_fails db
            \<longrightarrow> state_after (get_buy_score prov platform db pid now) pid platform
                  = Some \<lparr>ps_state = Some (fst (apply_hysteresis db platform pid (raw_state_of vopt)
                                (raw_readiness_of vopt)
                                (max 0 (min 100 (buy_raw_score prov pl (price lp) vopt stab))) (price lp) now)),
                          ps_readiness = Some (fst (snd (apply_hysteresis db platform pid (raw_state_of vopt)
                                (raw_readiness_of vopt)
                                (max 0 (min 100 (buy_raw_score prov pl (price lp) vopt stab))) (price lp) now))),
                          ps_score = Some (snd (snd (apply_hysteresis db platform pid (raw_state_of vopt)
                                (raw_readiness_of vopt)
                                (max 0 (min 100 (buy_raw_score prov pl (price lp) vopt stab))) (price lp) now))),
                          ps_price = Some (price lp), ps_updated_at = Some now\<rparr>)
       \<and> (\<forall>db2. database_of (get_sell_score prov platform db pid buy_price now) = Some db2
            \<longrightarrow> player_states db2 = player_states db)"
proof (intro conjI impI allI)
  assume a: "latest_price db pid platform = None \<or> length (price_history db pid platform 7 200) < 2"
  show "database_of (get_buy_score prov platform db pid now) = Some db"
  proof (cases "latest_price db pid platform")
    case None
    with pl show ?thesis by (simp add: get_buy_score_def database_of_def)
  next
    case (Some lr)
    with a have "length (price_history db pid platform 7 200) < 2" by simp
    with pl Some show ?thesis by (simp add: get_buy_score_def database_of_def)
  qed
next
  assume a: "latest_price db pid platform = Some lp
            \<and> \<not> length (price_history db pid platform 7 200) < 2
            \<and> calculate_velocity_v2 (price_history db pid platform 7 200) (Some (price lp)) now = Inr vopt
            \<and> check_stabilization_v2 (price_history db pid platform 7 200) 6 5 now = Inr stab
            \<and> \<not> update_fails db"
  then have lp: "latest_price db pid platform = Some lp"
    and len: "\<not> length (price_history db pid platform 7 200) < 2"
    and v: "calculate_velocity_v2 (price_history db pid platform 7 200) (Some (price lp)) now = Inr vopt"
    and st: "check_stabilization_v2 (price_history db pid platform 7 200) 6 5 now = Inr stab"
    and up: "\<not> update_fails db" by simp_all
  show "state_after (get_buy_score prov platform db pid now) pid platform
                  = Some \<lparr>ps_state = Some (fst (apply_hysteresis db platform pid (raw_state_of vopt)
                                (raw_readiness_of vopt)
                                (max 0 (min 100 (buy_raw_score prov pl (price lp) vopt stab))) (price lp) now)),
                          ps_readiness = Some (fst (snd (apply_hysteresis db platform pid (raw_state_of vopt)
                                (raw_readiness_of vopt)
                                (max 0 (min 100 (buy_raw_score prov pl (price lp) vopt stab))) (price lp) now))),
                          ps_score = Some (snd (snd (apply_hysteresis db platform pid (raw_state_of vopt)
                                (raw_readiness_of vopt)
                                (max 0 (min 100 (buy_raw_score prov pl (price lp) vopt stab))) (price lp) now))),
                          ps_price = Some (price lp), ps_updated_at = Some now\<rparr>"
    using up
    by (simp add: get_buy_score_scored [OF pl lp len v st] state_after_Inr buy_score_from_states Let_def)
next
  fix db2 assume "database_of (get_sell_score prov platform db pid buy_price now) = Some db2"
  then obtain sg where r: "get_sell_score prov platform db pid buy_price now = Inr (sg, db2)"
    using database_of_Some by blast
  from r show "player_states db2 = player_states db"
  proof (cases rule: get_sell_score_returns)
    case absent
    then show ?thesis by simp
  next
    case (scored pl lp vopt)
    then show ?thesis by (simp add: sell_score_from_states)
  qed
qed

theorem stored_state_after_buy_witness:
  "state_after (get_buy_score providers_none ''ps'' ex_db_waiting ''p1'' 0) ''p1'' ''ps''
     = Some \<lparr>ps_state = Some ''STABLE'', ps_readiness = Some ''WAIT'', ps_score = Some 60,
             ps_price = Some 1000, ps_updated_at = Some 0\<rparr>
   \<and> database_of (get_buy_score providers_none ''ps'' ex_db_empty ''p1'' 0) = Some ex_db_empty"
  using stored_state_after_buy [of ex_db_waiting "''p1''" "ex_player ''p1''" "''ps''" providers_none 0
      "sample 1000 0" "Some ex_velocity" ex_stabilization 950]
    stored_state_after_buy [of ex_db_empty "''p1''" "ex_player ''p1''" "''ps''" providers_none 0
      "sample 1000 0" "Some ex_velocity" ex_stabilization 950]
  by (simp add: ex_db_reads_waiting ex_lengths ex_history_velocity ex_history_stabilization price_sample
      ex_raw_values ex_raw_score_fresh ex_waiting_hysteresis ex_db_reads ex_db_empty_def)

text \<open>
  C3 as stated fails on a rejected evaluation. Stored: WAIT with score 60, written three
  hours ago at price 990. Fresh: READY with score 67 at price 1000, an upgrade of 7 points,
  which the hysteresis step rejects, re-emitting \<open>(STABLE, WAIT, 60)\<close>. The stored state is
  overwritten nevertheless: its price becomes 1000 and its time the current instant.
\<close>

theorem rejected_evaluation_counterexample:
  "player_states ex_db_waiting (''p1'', ''ps'') = Some (ex_prior ''STABLE'' ''WAIT'' 60 990 (- 10800))
   \<and> raw_state_of (Some ex_velocity) = ''STABLE''
   \<and> raw_readiness_of (Some ex_velocity) = ''READY''
   \<and> max 0 (min 100 (buy_raw_score providers_none (ex_player ''p1'') 1000 (Some ex_velocity) ex_stabilization)) = 67
   \<and> apply_hysteresis ex_db_waiting ''ps'' ''p1'' ''STABLE'' ''READY'' 67 1000 0 = (''STABLE'', ''WAIT'', 60)
   \<and> map_option sig_score (signal_of (get_buy_score providers_none ''ps'' ex_db_waiting ''p1'' 0)) = Some 60
   \<and> state_after (get_buy_score providers_none ''ps'' ex_db_waiting ''p1'' 0) ''p1'' ''ps''
        = Some (ex_prior ''STABLE'' ''WAIT'' 60 1000 0)
   \<and> ex_prior ''STABLE'' ''WAIT'' 60 1000 0 \<noteq> ex_prior ''STABLE'' ''WAIT'' 60 990 (- 10800)"
  by (simp add: ex_db_reads_waiting ex_raw_values ex_raw_score_fresh ex_waiting_hysteresis
      ex_waiting_score ex_waiting_state_after) (simp add: ex_prior_def)

subsection \<open>Fewer than three samples\<close>

lemma ex_short_sell_raw:
  "sell_raw_score providers_none pl 1000 950 None = 50"
  by (simp add: sell_raw_score_def ex_sell_profit sell_velocity_component_def providers_none_components)

text \<open>
  C4 as stated fails for a series of exactly two samples on the buy path, and for every
  short series on the sell path: with the two samples of \<open>ex_short_history\<close> (fewer than
  three), no stored state and no provider data, \<^verbatim>\<open>get_buy_score\<close> emits score 40 and
  \<^verbatim>\<open>get_sell_score\<close> (bought at 950) emits score 50, not 0.
\<close>

theorem two_samples_counterexample:
  "length ex_short_history = 2
   \<and> price_history ex_db_short ''p1'' ''ps'' 7 200 = ex_short_history
   \<and> price_history ex_db_short ''p1'' ''ps'' 7 100 = ex_short_history
   \<and> map_option sig_score (signal_of (get_buy_score providers_none ''ps'' ex_db_short ''p1'' 0)) = Some 40
   \<and> map_option sig_signal_type (signal_of (get_buy_score providers_none ''ps'' ex_db_short ''p1'' 0)) = Some ''WAIT''
   \<and> map_option sig_reasons (signal_of (get_buy_score providers_none ''ps'' ex_db_short ''p1'' 0)) = Some []
   \<and> map_option sig_score (signal_of (get_sell_score providers_none ''ps'' ex_db_short ''p1'' 950 0)) = Some 50
   \<and> map_option sig_signal_type (signal_of (get_sell_score providers_none ''ps'' ex_db_short ''p1'' 950 0)) = Some ''HOLD''"
  by (simp add: ex_lengths ex_db_reads_short ex_short_buy ex_short_sell signal_of_Inr
      buy_score_from_score sell_score_from_score ex_raw_values ex_raw_score_short ex_short_sell_raw
      apply_hysteresis_def)
    (simp add: buy_score_from_def sell_score_from_def Let_def buy_signal_type_def sell_signal_type_def
      ex_raw_score_short apply_hysteresis_def ex_db_reads_short providers_none_components
      no_velocity_timing_score ex_sell_profit sell_velocity_component_def)

subsection \<open>Unavailable providers\<close>




lemma ex_sell_velocity:
  "sell_velocity_component (Some ex_velocity) =
     (5, [Glyph ''dash'' (Suffix (Msg ''Stable (+-{abs(v_1h):.1f}%/h)'' [0]) '' - fine to sell'')], [])"
  by (simp add: sell_velocity_component_def v2_sell_map_def ex_velocity_def)


lemma providers_reads:
  "get_pulse providers_none = Returns None"
  "get_longterm_daily_prices providers_none pl = Returns None"
  "get_pulse providers_raising = Raises"
  "get_longterm_daily_prices providers_raising pl = Raises"
  by (simp_all add: providers_none_def providers_raising_def)

lemma unavailable_components:
  "buy_market_component Raises = (0, ''UNKNOWN'', [], [])"
  "buy_market_component (Returns None) = (0, ''UNKNOWN'', [], [])"
  "buy_position_component Raises cp = (0, 0, [], [Glyph ''warning'' (Msg ''No historical range data'' [])])"
  "buy_position_component (Returns None) cp = (0, 0, [], [])"
  "sell_market_component Raises = (0, ''UNKNOWN'', [], [])"
  "sell_market_component (Returns None) = (0, ''UNKNOWN'', [], [])"
  "sell_position_component Raises = (0, [], [])"
  "sell_position_component (Returns None) = (0, [], [])"
  by (simp_all add: buy_market_component_def buy_position_component_def
      sell_market_component_def sell_position_component_def)



section \<open>The velocity analysis\<close>

subsection \<open>Price windows and velocity fallback\<close>

lemma scan_targets_at:
  "scan_targets ts pr age w t =
     (if t \<in> set ts \<and> w t = None \<and> in_window t age then Some (pr, age) else w t)"
  by (induction ts arbitrary: w) (auto simp add: in_window_def)

lemma find_price_windows_keeps:
  "find_price_windows ps f now w = Inr w2 \<Longrightarrow> w t = Some x \<Longrightarrow> w2 t = Some x"
proof (induction ps arbitrary: w)
  case Nil
  then show ?case by simp
next
  case (Cons a ps)
  from Cons.prems(1) obtain ts where ts: "get_timestamp a f = Inr ts"
    by (cases "get_timestamp a f") (simp_all add: bindE_Inl)
  with Cons.prems(1)
  have r: "find_price_windows ps f now (scan_targets target_hours (price a) (age_hours now ts) w) = Inr w2"
    by (simp add: bindE_Inr)
  have "scan_targets target_hours (price a) (age_hours now ts) w t = Some x"
    using Cons.prems(2) by (simp add: scan_targets_at)
  from Cons.IH [OF r this] show ?case .
qed

lemma find_price_windows_sound:
  "find_price_windows ps f now w = Inr w2 \<Longrightarrow> w2 t = Some (pr, age) \<Longrightarrow>
     w t = Some (pr, age)
     \<or> (t \<in> set target_hours \<and> in_window t age
         \<and> (\<exists>p\<in>set ps. \<exists>ts. get_timestamp p f = Inr ts \<and> price p = pr \<and> age_hours now ts = age))"
proof (induction ps arbitrary: w)
  case Nil
  then show ?case by simp
next
  case (Cons a ps)
  from Cons.prems(1) obtain ts where ts: "get_timestamp a f = Inr ts"
    by (cases "get_timestamp a f") (simp_all add: bindE_Inl)
  with Cons.prems(1)
  have r: "find_price_windows ps f now (scan_targets target_hours (price a) (age_hours now ts) w) = Inr w2"
    by (simp add: bindE_Inr)
  from Cons.IH [OF r Cons.prems(2)]
  consider (here) "scan_targets target_hours (price a) (age_hours now ts) w t = Some (pr, age)"
    | (later) "t \<in> set target_hours \<and> in_window t age
         \<and> (\<exists>p\<in>set ps. \<exists>ts. get_timestamp p f = Inr ts \<and> price p = pr \<and> age_hours now ts = age)"
    by blast
  then show ?case
  proof cases
    case here
    then show ?thesis using ts by (auto simp add: scan_targets_at split: if_splits)
  next
    case later
    then show ?thesis by auto
  qed
qed

lemma find_price_windows_complete:
  "find_price_windows ps f now w = Inr w2 \<Longrightarrow> w2 t = None \<Longrightarrow> t \<in> set target_hours \<Longrightarrow>
     p \<in> set ps \<Longrightarrow> get_timestamp p f = Inr ts \<Longrightarrow> \<not> in_window t (age_hours now ts)"
proof (induction ps arbitrary: w)
  case Nil
  then show ?case by simp
next
  case (Cons a ps)
  from Cons.prems(1) obtain ta where ta: "get_timestamp a f = Inr ta"
    by (cases "get_timestamp a f") (simp_all add: bindE_Inl)
  with Cons.prems(1)
  have r: "find_price_windows ps f now (scan_targets target_hours (price a) (age_hours now ta) w) = Inr w2"
    by (simp add: bindE_Inr)
  show ?case
  proof (cases "p = a")
    case True
    have "scan_targets target_hours (price a) (age_hours now ta) w t = None"
    proof (cases "scan_targets target_hours (price a) (age_hours now ta) w t")
      case None
      then show ?thesis .
    next
      case (Some x)
      from find_price_windows_keeps [OF r Some] Cons.prems(2) show ?thesis by simp
    qed
    with Cons.prems(3) have "\<not> in_window t (age_hours now ta)"
      by (auto simp add: scan_targets_at split: if_splits)
    with True ta Cons.prems(5) show ?thesis by simp
  next
    case False
    with Cons.prems(4) have "p \<in> set ps" by simp
    from Cons.IH [OF r Cons.prems(2,3) this Cons.prems(5)] show ?thesis .
  qed
qed

lemma bindE_eq_Inr: "bindE m g = Inr y \<longleftrightarrow> (\<exists>x. m = Inr x \<and> g x = Inr y)"
  by (cases m) (simp_all add: bindE_def)

lemma calculate_velocity_v2_fields:
  assumes "calculate_velocity_v2 prices cp now = Inr (Some v)"
  shows "\<exists>w current. find_price_windows prices (choose_ts_field (hd prices)) now Map.empty = Inr w
           \<and> velocity_1h v = py_round (calc_velocity current w 1) 2
           \<and> velocity_2h v = py_round (calc_velocity current w 2) 2
           \<and> velocity_6h v = py_round (py_or (calc_velocity current w 6) (calc_velocity current w 2)) 2
           \<and> velocity_24h v = py_round (py_or (calc_velocity current w 24)
                                  (py_or (calc_velocity current w 6) (calc_velocity current w 2))) 2"
proof (cases prices)
  case Nil
  with assms show ?thesis by (simp add: calculate_velocity_v2_def)
next
  case (Cons p0 rest)
  with assms show ?thesis
    by (auto simp add: calculate_velocity_v2_def Let_def bindE_eq_Inr split: if_splits)
qed

lemma py_round_zero: "py_round 0 n = 0"
  by (simp add: py_round_def)

text \<open>
  C6 (as amended). For each lookback target of 1, 2, 4, 6, 12, 24 and 48 hours, the sample
  recorded for the window is a sample of the series whose age lies in
  \<open>[0.5 * target, 1.5 * target]\<close> hours, and the window is empty only when no sample of the
  series has its age there. With an empty window the 1h and the 2h velocity are 0, the 6h
  velocity is the 2h velocity, and the 24h velocity is the 6h velocity: the fallback goes
  to the next smaller reported window.
\<close>

theorem price_windows_and_fallback:
  assumes fw: "find_price_windows prices f now Map.empty = Inr w"
  shows "(\<forall>t pr age. w t = Some (pr, age) \<longrightarrow>
            t \<in> {1, 2, 4, 6, 12, 24, 48} \<and> real_of_int t * 0.5 \<le> age \<and> age \<le> real_of_int t * 1.5
            \<and> (\<exists>p\<in>set prices. \<exists>ts. get_timestamp p f = Inr ts \<and> price p = pr
                  \<and> age_hours now ts = age))
       \<and> (\<forall>t\<in>{1, 2, 4, 6, 12, 24, 48}. w t = None \<longrightarrow>
            (\<forall>p\<in>set prices. \<forall>ts. get_timestamp p f = Inr ts \<longrightarrow>
               \<not> (real_of_int t * 0.5 \<le> age_hours now ts \<and> age_hours now ts \<le> real_of_int t * 1.5)))
       \<and> (\<forall>cp v. f = choose_ts_field (hd prices) \<and> calculate_velocity_v2 prices cp now = Inr (Some v) \<longrightarrow>
            (w 1 = None \<longrightarrow> velocity_1h v = 0)
            \<and> (w 2 = None \<longrightarrow> velocity_2h v = 0)
            \<and> (w 6 = None \<longrightarrow> velocity_6h v = velocity_2h v)
            \<and> (w 24 = None \<longrightarrow> velocity_24h v = velocity_6h v))"
proof (intro conjI allI impI ballI)
  fix t pr age assume a: "w t = Some (pr, age)"
  from find_price_windows_sound [OF fw a]
  have s: "t \<in> set target_hours \<and> in_window t age
         \<and> (\<exists>p\<in>set prices. \<exists>ts. get_timestamp p f = Inr ts \<and> price p = pr \<and> age_hours now ts = age)"
    by simp
  then show "t \<in> {1, 2, 4, 6, 12, 24, 48}" and "real_of_int t * 0.5 \<le> age" and "age \<le> real_of_int t * 1.5"
    and "\<exists>p\<in>set prices. \<exists>ts. get_timestamp p f = Inr ts \<and> price p = pr \<and> age_hours now ts = age"
    by (simp_all add: in_window_def target_hours_def)
next
  fix t p ts assume "t \<in> {1, 2, 4, 6, 12, 24, 48}" and "w t = None" and "p \<in> set prices"
    and "get_timestamp p f = Inr ts"
  then have "t \<in> set target_hours" and "w t = None" and "p \<in> set prices"
    and "get_timestamp p f = Inr ts" by (simp_all add: target_hours_def)
  from find_price_windows_complete [OF fw this(2) this(1) this(3) this(4)]
  show "\<not> (real_of_int t * 0.5 \<le> age_hours now ts \<and> age_hours now ts \<le> real_of_int t * 1.5)"
    by (simp add: in_window_def)
next
  fix cp v assume a: "f = choose_ts_field (hd prices) \<and> calculate_velocity_v2 prices cp now = Inr (Some v)"
  with calculate_velocity_v2_fields [of prices cp now v] fw
  obtain current where v1: "velocity_1h v = py_round (calc_velocity current w 1) 2"
    and v2: "velocity_2h v = py_round (calc_velocity current w 2) 2"
    and v6: "velocity_6h v = py_round (py_or (calc_velocity current w 6) (calc_velocity current w 2)) 2"
    and v24: "velocity_24h v = py_round (py_or (calc_velocity current w 24)
                                  (py_or (calc_velocity current w 6) (calc_velocity current w 2))) 2"
    by auto
  { assume "w 1 = None" with v1 show "velocity_1h v = 0" by (simp add: calc_velocity_def py_round_zero) }
  { assume "w 2 = None" with v2 show "velocity_2h v = 0" by (simp add: calc_velocity_def py_round_zero) }
  { assume "w 6 = None" with v6 v2 show "velocity_6h v = velocity_2h v"
      by (simp add: calc_velocity_def py_or_def) }
  { assume "w 24 = None" with v24 v6 show "velocity_24h v = velocity_6h v"
      by (simp add: calc_velocity_def py_or_def) }
qed

lemma ex_old_windows:
  "find_price_windows ex_old_history RecordedAt 0 Map.empty =
     Inr [4 \<mapsto> (1000, 4), 6 \<mapsto> (1000, 4), 12 \<mapsto> (1000, 6)]"
  by (simp add: ex_old_history_def eval_defs cong: bindE_weak_cong)

lemma ex_old_velocities:
  "map_option velocity_1h (analysis_of (calculate_velocity_v2 ex_old_history (Some 1100) 0)) = Some 0"
  "map_option velocity_2h (analysis_of (calculate_velocity_v2 ex_old_history (Some 1100) 0)) = Some 0"
  "map_option velocity_6h (analysis_of (calculate_velocity_v2 ex_old_history (Some 1100) 0)) = Some (5 / 2)"
  "map_option velocity_24h (analysis_of (calculate_velocity_v2 ex_old_history (Some 1100) 0)) = Some (5 / 2)"
  by (simp_all add: analysis_of_def calculate_velocity_v2_def ex_old_history_def eval_defs
      cong: bindE_weak_cong)

theorem price_windows_and_fallback_witness:
  "window_at (find_price_windows ex_old_history RecordedAt 0 Map.empty) 4 = Some (1000, 4)
   \<and> real_of_int 4 * 0.5 \<le> (4::real) \<and> (4::real) \<le> real_of_int 4 * 1.5
   \<and> window_at (find_price_windows ex_old_history RecordedAt 0 Map.empty) 24 = None
   \<and> map_option velocity_24h (analysis_of (calculate_velocity_v2 ex_old_history (Some 1100) 0))
      = map_option velocity_6h (analysis_of (calculate_velocity_v2 ex_old_history (Some 1100) 0))"
  using price_windows_and_fallback [OF ex_old_windows]
  by (simp add: ex_old_windows window_at_def ex_old_velocities)

text \<open>
  C6 as stated fails in its fallback. In \<open>ex_old_history\<close> (samples four, five and six hours
  old, price 1000, current price 1100) no sample lies in the 1h or the 2h window; the next
  larger window that has a sample is the 4h one, whose computed velocity is 2.5 percent
  per hour. The reported 1h and 2h velocities are 0, not 2.5.
\<close>

theorem fallback_counterexample:
  "window_at (find_price_windows ex_old_history RecordedAt 0 Map.empty) 1 = None
   \<and> window_at (find_price_windows ex_old_history RecordedAt 0 Map.empty) 2 = None
   \<and> window_at (find_price_windows ex_old_history RecordedAt 0 Map.empty) 4 = Some (1000, 4)
   \<and> calc_velocity 1100 [4 \<mapsto> (1000, 4), 6 \<mapsto> (1000, 4), 12 \<mapsto> (1000, 6)] 4 = 5 / 2
   \<and> map_option velocity_1h (analysis_of (calculate_velocity_v2 ex_old_history (Some 1100) 0)) = Some 0
   \<and> map_option velocity_2h (analysis_of (calculate_velocity_v2 ex_old_history (Some 1100) 0)) = Some 0
   \<and> (0::real) \<noteq> 5 / 2"
  by (simp add: ex_old_windows window_at_def ex_old_velocities calc_velocity_def)

subsection \<open>Higher lows\<close>

text \<open>
  C7 on the code. The price history reaches \<^verbatim>\<open>_detect_higher_lows\<close> newest first, and the
  function takes the first half of the minima it meets for the early ones. For the series
  with the later dip 950 above the earlier dip 900 it answers False, and for the series
  with the later dip 900 below the earlier dip 950 it answers True.
\<close>

theorem higher_lows_reversed:
  "detect_higher_lows ex_rising_dips RecordedAt 7 0 = Inr False
   \<and> detect_higher_lows ex_falling_dips RecordedAt 7 0 = Inr True
   \<and> map_option has_higher_lows (analysis_of (calculate_velocity_v2 ex_rising_dips (Some 1010) 0)) = Some False
   \<and> map_option has_higher_lows (analysis_of (calculate_velocity_v2 ex_falling_dips (Some 1010) 0)) = Some True"
  by (simp add: ex_rising_dips_def ex_falling_dips_def analysis_of_def calculate_velocity_v2_def
      eval_defs cong: bindE_weak_cong)

subsection \<open>Invalid input\<close>










section \<open>The scans\<close>

lemma scan_buy_loop_evaluated:
  "scan_buy_loop prov platform m now ps db acc =
     bindE (evaluated_buy_signals prov platform now ps db)
       (\<lambda>r. Inr (acc @ filter (\<lambda>s. m \<le> sig_score s) (fst r), snd r))"
proof (induction ps arbitrary: db acc)
  case Nil
  show ?case by (simp add: bindE_Inr)
next
  case (Cons p ps)
  show ?case
  proof (cases "get_buy_score prov platform db (pl_id p) now")
    case (Inl e)
    then show ?thesis by (simp add: bindE_Inl)
  next
    case (Inr r0)
    show ?thesis
    proof (cases "evaluated_buy_signals prov platform now ps (snd r0)")
      case (Inl e)
      with Inr show ?thesis by (simp add: bindE_Inl bindE_Inr Cons.IH)
    next
      case (Inr rest)
      with \<open>get_buy_score prov platform db (pl_id p) now = Inr r0\<close> show ?thesis
        by (cases "fst r0") (simp_all add: bindE_Inr Cons.IH)
    qed
  qed
qed

lemma scan_sell_loop_evaluated:
  "scan_sell_loop prov platform m now ps db acc =
     bindE (evaluated_sell_signals prov platform now ps db)
       (\<lambda>r. Inr (acc @ filter (\<lambda>opp. m \<le> sig_score (opp_signal opp)) (fst r), snd r))"
proof (induction ps arbitrary: db acc)
  case Nil
  show ?case by (simp add: bindE_Inr)
next
  case (Cons p ps)
  show ?case
  proof (cases "get_sell_score prov platform db (pos_player_id p) (pos_buy_price p) now")
    case (Inl e)
    then show ?thesis by (simp add: bindE_Inl)
  next
    case (Inr r0)
    show ?thesis
    proof (cases "evaluated_sell_signals prov platform now ps (snd r0)")
      case (Inl e)
      with Inr show ?thesis by (simp add: bindE_Inl bindE_Inr Cons.IH)
    next
      case (Inr rest)
      with \<open>get_sell_score prov platform db (pos_player_id p) (pos_buy_price p) now = Inr r0\<close>
      show ?thesis
        by (cases "fst r0") (simp_all add: bindE_Inr Cons.IH)
    qed
  qed
qed

lemma sort_by_score_desc_mset: "mset (sort_by_score_desc f xs) = mset xs"
  by (simp add: sort_by_score_desc_def)

lemma sort_by_score_desc_sorted:
  "sorted_wrt (\<lambda>a b. f b \<le> f a) (sort_by_score_desc f xs)"
proof -
  have "sorted (map (\<lambda>x. - f x) (sort_key (\<lambda>x. - f x) xs))" by (rule sorted_sort_key)
  then show ?thesis by (simp add: sort_by_score_desc_def sorted_map)
qed

text \<open>
  C10. \<^verbatim>\<open>scan_buy_opportunities\<close> over the active players, and \<^verbatim>\<open>scan_sell_opportunities\<close>
  over the held positions, return exactly the evaluated signals whose score is at least
  \<open>min_score\<close> (as a multiset: each as often as it was evaluated), in non-increasing order
  of score; a scan raises exactly when one of its evaluations raises.
\<close>

theorem scan_results:
  "(\<forall>e. evaluated_buy_signals prov platform now (active_players db) db = Inl e
        \<longrightarrow> scan_buy_opportunities prov platform db min_score now = Inl e)
   \<and> (\<forall>ev db2. evaluated_buy_signals prov platform now (active_players db) db = Inr (ev, db2)
        \<longrightarrow> (\<exists>res. scan_buy_opportunities prov platform db min_score now = Inr (res, db2)
               \<and> mset res = mset (filter (\<lambda>s. min_score \<le> sig_score s) ev)
               \<and> sorted_wrt (\<lambda>a b. sig_score b \<le> sig_score a) res))
   \<and> (\<forall>e. evaluated_sell_signals prov platform now positions db = Inl e
        \<longrightarrow> scan_sell_opportunities prov platform db positions min_score now = Inl e)
   \<and> (\<forall>ev db2. evaluated_sell_signals prov platform now positions db = Inr (ev, db2)
        \<longrightarrow> (\<exists>res. scan_sell_opportunities prov platform db positions min_score now = Inr (res, db2)
               \<and> mset res = mset (filter (\<lambda>opp. min_score \<le> sig_score (opp_signal opp)) ev)
               \<and> sorted_wrt (\<lambda>a b. sig_score (opp_signal b) \<le> sig_score (opp_signal a)) res))"
proof (intro conjI allI impI)
  fix e assume "evaluated_buy_signals prov platform now (active_players db) db = Inl e"
  then show "scan_buy_opportunities prov platform db min_score now = Inl e"
    by (simp add: scan_buy_opportunities_def scan_buy_loop_evaluated bindE_Inl)
next
  fix ev db2 assume "evaluated_buy_signals prov platform now (active_players db) db = Inr (ev, db2)"
  then have "scan_buy_opportunities prov platform db min_score now
      = Inr (sort_by_score_desc sig_score (filter (\<lambda>s. min_score \<le> sig_score s) ev), db2)"
    by (simp add: scan_buy_opportunities_def scan_buy_loop_evaluated bindE_Inr)
  then show "\<exists>res. scan_buy_opportunities prov platform db min_score now = Inr (res, db2)
               \<and> mset res = mset (filter (\<lambda>s. min_score \<le> sig_score s) ev)
               \<and> sorted_wrt (\<lambda>a b. sig_score b \<le> sig_score a) res"
    by (simp add: sort_by_score_desc_mset sort_by_score_desc_sorted)
next
  fix e assume "evaluated_sell_signals prov platform now positions db = Inl e"
  then show "scan_sell_opportunities prov platform db positions min_score now = Inl e"
    by (simp add: scan_sell_opportunities_def scan_sell_loop_evaluated bindE_Inl)
next
  fix ev db2 assume "evaluated_sell_signals prov platform now positions db = Inr (ev, db2)"
  then have "scan_sell_opportunities prov platform db positions min_score now
      = Inr (sort_by_score_desc (\<lambda>opp. sig_score (opp_signal opp))
               (filter (\<lambda>opp. min_score \<le> sig_score (opp_signal opp)) ev), db2)"
    by (simp add: scan_sell_opportunities_def scan_sell_loop_evaluated bindE_Inr)
  then show "\<exists>res. scan_sell_opportunities prov platform db positions min_score now = Inr (res, db2)
               \<and> mset res = mset (filter (\<lambda>opp. min_score \<le> sig_score (opp_signal opp)) ev)
               \<and> sorted_wrt (\<lambda>a b. sig_score (opp_signal b) \<le> sig_score (opp_signal a)) res"
    by (simp add: sort_by_score_desc_mset
        sort_by_score_desc_sorted [of "\<lambda>opp. sig_score (opp_signal opp)"])
qed

lemma buy_score_from_frame:
  "players (snd (buy_score_from prov platform db pid pl cp vopt stab now)) = players db"
  "latest_price (snd (buy_score_from prov platform db pid pl cp vopt stab now)) = latest_price db"
  "price_history (snd (buy_score_from prov platform db pid pl cp vopt stab now)) = price_history db"
  "find_fails (snd (buy_score_from prov platform db pid pl cp vopt stab now)) = find_fails db"
  by (simp_all add: buy_score_from_def Let_def log_signal_def save_player_state_def)

lemma ex_db_two_reads:
  "players ex_db_two ''p1'' = Some (ex_player ''p1'')"
  "players ex_db_two ''p2'' = Some (ex_player ''p2'')"
  "latest_price ex_db_two ''p1'' ''ps'' = Some (sample 1000 0)"
  "latest_price ex_db_two ''p2'' ''ps'' = Some (sample 1000 0)"
  "price_history ex_db_two ''p1'' ''ps'' days limit = ex_short_history"
  "price_history ex_db_two ''p2'' ''ps'' days limit = ex_history"
  "active_players ex_db_two = [ex_player ''p1'', ex_player ''p2'']"
  "get_player_state ex_db_two ''ps'' pid = None"
  "find_fails ex_db_two = False"
  "update_fails ex_db_two = False"
  by (simp_all add: ex_db_two_def ex_db_def ex_history_def ex_short_history_def get_player_state_def)

lemma ex_two_first_eval:
  "get_buy_score prov ''ps'' ex_db_two ''p1'' 0 = Inr (Some (fst (ex_two_first prov)), snd (ex_two_first prov))"
  using get_buy_score_scored [of ex_db_two "''p1''" "ex_player ''p1''" "''ps''" "sample 1000 0" 0
      None "(False, Msg ''Insufficient data'' [], 0)" prov]
  by (simp add: ex_db_two_reads price_sample short_velocity short_stabilization ex_lengths ex_two_first_def)

lemma ex_two_second_eval:
  "get_buy_score prov ''ps'' (snd (ex_two_first prov)) ''p2'' 0 =
     Inr (Some (fst (ex_two_second prov)), snd (ex_two_second prov))"
  using get_buy_score_scored [of "snd (ex_two_first prov)" "''p2''" "ex_player ''p2''" "''ps''"
      "sample 1000 0" 0 "Some ex_velocity" ex_stabilization prov]
  by (simp add: ex_two_first_def buy_score_from_frame ex_db_two_reads price_sample
      ex_history_velocity ex_history_stabilization ex_lengths ex_two_second_def)

lemma ex_two_evaluated:
  "evaluated_buy_signals prov ''ps'' 0 (active_players ex_db_two) ex_db_two =
     Inr ([fst (ex_two_first prov), fst (ex_two_second prov)], snd (ex_two_second prov))"
  by (simp add: ex_db_two_reads ex_player_def bindE_Inr)
     (simp add: ex_two_first_eval [unfolded ex_player_def] ex_two_second_eval [unfolded ex_player_def] bindE_Inr
       flip: ex_player_def)


lemma ex_two_scores:
  "sig_score (fst (ex_two_first providers_none)) = 40"
  "sig_score (fst (ex_two_second providers_none)) = 67"
  by (simp_all add: ex_two_first_def ex_two_second_def buy_score_from_score ex_raw_values
      ex_raw_score_short ex_raw_score_fresh apply_hysteresis_def get_player_state_def
      buy_score_from_frame buy_score_from_states ex_db_two_reads
      ex_db_two_def ex_db_reads)

lemma ex_position_evaluated:
  "evaluated_sell_signals prov ''ps'' 0 [ex_position] ex_db_fresh =
     Inr ([\<lparr>opp_signal = fst (sell_score_from prov ''ps'' ex_db_fresh ''p1'' (ex_player ''p1'') 1000 950
                                (Some ex_velocity) 0),
             opp_position_id = None, opp_buy_price = 950, opp_quantity = 1\<rparr>],
          snd (sell_score_from prov ''ps'' ex_db_fresh ''p1'' (ex_player ''p1'') 1000 950
                 (Some ex_velocity) 0))"
  by (simp add: ex_position_def ex_fresh_sell bindE_Inr get_or_def)

lemma ex_position_score:
  "sig_score (fst (sell_score_from providers_none ''ps'' ex_db_fresh ''p1'' (ex_player ''p1'') 1000 950
                     (Some ex_velocity) 0)) = 55"
  by (simp add: sell_score_from_score sell_raw_score_def ex_sell_profit ex_sell_velocity
      providers_none_components)

theorem scan_results_witness:
  "(\<exists>res db2. scan_buy_opportunities providers_none ''ps'' ex_db_two 30 0 = Inr (res, db2)
       \<and> mset (map sig_score res) = {#40, 67#}
       \<and> sorted_wrt (\<lambda>a b. sig_score b \<le> sig_score a) res)
   \<and> (\<exists>res db2. scan_buy_opportunities providers_none ''ps'' ex_db_two 50 0 = Inr (res, db2)
       \<and> mset (map sig_score res) = {#67#})
   \<and> (\<exists>res db2. scan_sell_opportunities providers_none ''ps'' ex_db_fresh [ex_position] 50 0 = Inr (res, db2)
       \<and> mset (map (\<lambda>opp. sig_score (opp_signal opp)) res) = {#55#})"
proof (intro conjI)
  from scan_results [of providers_none "''ps''" 0 ex_db_two 30 "[ex_position]"]
    ex_two_evaluated [of providers_none]
  obtain r1 where r1: "scan_buy_opportunities providers_none ''ps'' ex_db_two 30 0
        = Inr (r1, snd (ex_two_second providers_none))"
     and m1: "mset r1 = mset (filter (\<lambda>s. 30 \<le> sig_score s)
                [fst (ex_two_first providers_none), fst (ex_two_second providers_none)])"
     and s1: "sorted_wrt (\<lambda>a b. sig_score b \<le> sig_score a) r1"
    by blast
  have n1: "mset (map sig_score r1) = {#40, 67#}"
    by (simp add: m1 ex_two_scores)
  show "\<exists>res db2. scan_buy_opportunities providers_none ''ps'' ex_db_two 30 0 = Inr (res, db2)
       \<and> mset (map sig_score res) = {#40, 67#}
       \<and> sorted_wrt (\<lambda>a b. sig_score b \<le> sig_score a) res"
  proof (intro exI conjI)
    show "scan_buy_opportunities providers_none ''ps'' ex_db_two 30 0
        = Inr (r1, snd (ex_two_second providers_none))" by (rule r1)
    show "mset (map sig_score r1) = {#40, 67#}" by (rule n1)
    show "sorted_wrt (\<lambda>a b. sig_score b \<le> sig_score a) r1" by (rule s1)
  qed
next
  from scan_results [of providers_none "''ps''" 0 ex_db_two 50 "[ex_position]"]
    ex_two_evaluated [of providers_none]
  obtain r2 where r2: "scan_buy_opportunities providers_none ''ps'' ex_db_two 50 0
        = Inr (r2, snd (ex_two_second providers_none))"
     and m2: "mset r2 = mset (filter (\<lambda>s. 50 \<le> sig_score s)
                [fst (ex_two_first providers_none), fst (ex_two_second providers_none)])"
    by blast
  have n2: "mset (map sig_score r2) = {#67#}"
    by (simp add: m2 ex_two_scores)
  show "\<exists>res db2. scan_buy_opportunities providers_none ''ps'' ex_db_two 50 0 = Inr (res, db2)
       \<and> mset (map sig_score res) = {#67#}"
  proof (intro exI conjI)
    show "scan_buy_opportunities providers_none ''ps'' ex_db_two 50 0
        = Inr (r2, snd (ex_two_second providers_none))" by (rule r2)
    show "mset (map sig_score r2) = {#67#}" by (rule n2)
  qed
next
  from scan_results [of providers_none "''ps''" 0 ex_db_fresh 50 "[ex_position]"]
    ex_position_evaluated [of providers_none]
  obtain r3 db3 where r3: "scan_sell_opportunities providers_none ''ps'' ex_db_fresh [ex_position] 50 0
        = Inr (r3, db3)"
     and m3: "mset r3 = mset (filter (\<lambda>opp. 50 \<le> sig_score (opp_signal opp))
                [\<lparr>opp_signal = fst (sell_score_from providers_none ''ps'' ex_db_fresh ''p1''
                                      (ex_player ''p1'') 1000 950 (Some ex_velocity) 0),
                  opp_position_id = None, opp_buy_price = 950, opp_quantity = 1\<rparr>])"
    by blast
  have n3: "mset (map (\<lambda>opp. sig_score (opp_signal opp)) r3) = {#55#}"
    by (simp add: m3 ex_position_score)
  show "\<exists>res db2. scan_sell_opportunities providers_none ''ps'' ex_db_fresh [ex_position] 50 0
        = Inr (res, db2)
       \<and> mset (map (\<lambda>opp. sig_score (opp_signal opp)) res) = {#55#}"
  proof (intro exI conjI)
    show "scan_sell_opportunities providers_none ''ps'' ex_db_fresh [ex_position] 50 0
        = Inr (r3, db3)" by (rule r3)
    show "mset (map (\<lambda>opp. sig_score (opp_signal opp)) r3) = {#55#}" by (rule n3)
  qed
qed

section \<open>Short price series\<close>

text \<open>
  C4 (as amended). For a tracked player: with no latest price or fewer than two samples,
  \<^verbatim>\<open>get_buy_score\<close> returns the degenerate result, score 0 and category WAIT with the
  reason "Insufficient data", and leaves the database as it was; with exactly two samples
  it scores as usual with the velocity absent (readiness WAIT, timing component 0); with
  fewer than three samples it always returns a signal and never raises.
  \<^verbatim>\<open>get_sell_score\<close> has no degenerate result: with fewer than three samples it returns
  nothing when there is no latest price, and otherwise a signal without velocity whose
  score is the clamped sum of base 50 and the profit, market and position components; it
  does not raise either.
\<close>

theorem insufficient_data_results:
  assumes pl: "players db pid = Some pl"
  shows "(latest_price db pid platform = None \<or> length (price_history db pid platform 7 200) < 2
            \<longrightarrow> (\<exists>s. get_buy_score prov platform db pid now = Inr (Some s, db)
                     \<and> sig_score s = 0 \<and> sig_signal_type s = ''WAIT''
                     \<and> sig_reasons s = [Msg ''Insufficient data'' []]))
       \<and> (latest_price db pid platform = Some lp \<and> length (price_history db pid platform 7 200) = 2
            \<longrightarrow> (\<exists>s db2. get_buy_score prov platform db pid now = Inr (Some s, db2)
                     \<and> sig_velocity s = None
                     \<and> sig_score s =
                         snd (snd (apply_hysteresis db platform pid ''STABLE'' ''WAIT''
                           (max 0 (min 100 (40 + fst (buy_market_component (get_pulse prov))
                              + (fst (buy_position_component (get_longterm_daily_prices prov pl) (price lp))
                                 + fst (snd (buy_position_component (get_longterm_daily_prices prov pl) (price lp)))))))
                           (price lp) now))))
       \<and> (length (price_history db pid platform 7 200) < 3
            \<longrightarrow> (\<exists>s db2. get_buy_score prov platform db pid now = Inr (Some s, db2)))
       \<and> (length (price_history db pid platform 7 100) < 3 \<and> latest_price db pid platform = None
            \<longrightarrow> get_sell_score prov platform db pid buy_price now = Inr (None, db))
       \<and> (length (price_history db pid platform 7 100) < 3 \<and> latest_price db pid platform = Some lp
            \<longrightarrow> (\<exists>s db2. get_sell_score prov platform db pid buy_price now = Inr (Some s, db2)
                     \<and> sig_velocity s = None
                     \<and> sig_score s =
                         max 0 (min 100 (50 + fst (sell_profit_component (price lp) buy_price)
                             + fst (sell_market_component (get_pulse prov))
                             + fst (sell_position_component (get_longterm_daily_prices prov pl))))))"
proof (intro conjI impI)
  assume a: "latest_price db pid platform = None \<or> length (price_history db pid platform 7 200) < 2"
  show "\<exists>s. get_buy_score prov platform db pid now = Inr (Some s, db)
                     \<and> sig_score s = 0 \<and> sig_signal_type s = ''WAIT''
                     \<and> sig_reasons s = [Msg ''Insufficient data'' []]"
  proof (cases "latest_price db pid platform")
    case None
    with pl show ?thesis by (simp add: get_buy_score_def insufficient_data_signal_def)
  next
    case (Some lr)
    with a have "length (price_history db pid platform 7 200) < 2" by simp
    with pl Some show ?thesis by (simp add: get_buy_score_def insufficient_data_signal_def)
  qed
next
  assume a: "latest_price db pid platform = Some lp \<and> length (price_history db pid platform 7 200) = 2"
  then have lp: "latest_price db pid platform = Some lp"
    and l2: "\<not> length (price_history db pid platform 7 200) < 2"
    and l3: "length (price_history db pid platform 7 200) < 3"
    and l5: "length (price_history db pid platform 7 200) < 5" by simp_all
  show "\<exists>s db2. get_buy_score prov platform db pid now = Inr (Some s, db2)
                     \<and> sig_velocity s = None
                     \<and> sig_score s =
                         snd (snd (apply_hysteresis db platform pid ''STABLE'' ''WAIT''
                           (max 0 (min 100 (40 + fst (buy_market_component (get_pulse prov))
                              + (fst (buy_position_component (get_longterm_daily_prices prov pl) (price lp))
                                 + fst (snd (buy_position_component (get_longterm_daily_prices prov pl) (price lp)))))))
                           (price lp) now))"
    by (simp add: get_buy_score_scored [OF pl lp l2 short_velocity [OF l3] short_stabilization [OF l5]]
        buy_score_from_velocity buy_score_from_score ex_raw_values buy_raw_score_def
        no_velocity_timing_score)
next
  assume a: "length (price_history db pid platform 7 200) < 3"
  show "\<exists>s db2. get_buy_score prov platform db pid now = Inr (Some s, db2)"
  proof (cases "latest_price db pid platform")
    case None
    with pl show ?thesis by (simp add: get_buy_score_def)
  next
    case (Some lr)
    show ?thesis
    proof (cases "length (price_history db pid platform 7 200) < 2")
      case True
      with pl Some show ?thesis by (simp add: get_buy_score_def)
    next
      case False
      from a have "length (price_history db pid platform 7 200) < 5" by simp
      from get_buy_score_scored [OF pl Some False short_velocity [OF a] short_stabilization [OF this]]
      show ?thesis by blast
    qed
  qed
next
  assume "length (price_history db pid platform 7 100) < 3 \<and> latest_price db pid platform = None"
  with pl show "get_sell_score prov platform db pid buy_price now = Inr (None, db)"
    by (simp add: get_sell_score_def)
next
  assume a: "length (price_history db pid platform 7 100) < 3 \<and> latest_price db pid platform = Some lp"
  then have len: "length (price_history db pid platform 7 100) < 3"
    and lp: "latest_price db pid platform = Some lp" by simp_all
  show "\<exists>s db2. get_sell_score prov platform db pid buy_price now = Inr (Some s, db2)
                     \<and> sig_velocity s = None
                     \<and> sig_score s =
                         max 0 (min 100 (50 + fst (sell_profit_component (price lp) buy_price)
                             + fst (sell_market_component (get_pulse prov))
                             + fst (sell_position_component (get_longterm_daily_prices prov pl))))"
    by (simp add: get_sell_score_scored [OF pl lp short_velocity [OF len]]
        sell_score_from_score sell_score_from_velocity sell_raw_score_def sell_velocity_component_def)
qed

theorem insufficient_data_results_witness:
  "(\<exists>s db2. get_buy_score providers_none ''ps'' ex_db_short ''p1'' 0 = Inr (Some s, db2)
       \<and> sig_velocity s = None \<and> sig_score s = 40)
   \<and> (\<exists>s db2. get_sell_score providers_none ''ps'' ex_db_short ''p1'' 950 0 = Inr (Some s, db2)
       \<and> sig_velocity s = None \<and> sig_score s = 50)
   \<and> (\<exists>s. get_buy_score providers_none ''ps'' ex_db_empty ''p1'' 0 = Inr (Some s, ex_db_empty)
       \<and> sig_score s = 0 \<and> sig_signal_type s = ''WAIT'' \<and> sig_reasons s = [Msg ''Insufficient data'' []])
   \<and> get_sell_score providers_none ''ps'' ex_db_empty ''p1'' 950 0 = Inr (None, ex_db_empty)"
  using insufficient_data_results [where db = ex_db_short and pid = "''p1''" and pl = "ex_player ''p1''"
      and platform = "''ps''" and lp = "sample 1000 0" and prov = providers_none and now = 0
      and buy_price = 950]
    insufficient_data_results [where db = ex_db_empty and pid = "''p1''" and pl = "ex_player ''p1''"
      and platform = "''ps''" and lp = "sample 1000 0" and prov = providers_none and now = 0
      and buy_price = 950]
  by (simp add: ex_db_reads_short ex_lengths price_sample ex_sell_profit unavailable_components
      providers_reads ex_db_empty_def ex_db_reads apply_hysteresis_def)

end
